theory Spec2Isabelle
  imports Complex_Main
begin

section \<open>Residence imputer: evidence fusion and orchestration\<close>

text \<open>
  A shallow embedding of \<^verbatim>\<open>src/core/dto.py\<close>, \<^verbatim>\<open>src/core/policy.py\<close>,
  \<^verbatim>\<open>src/core/fusion.py\<close> and \<^verbatim>\<open>src/core/imputer.py\<close>.

  Conventions of the embedding:
  \<^item> a Python \<^verbatim>\<open>float\<close> is a \<^typ>\<open>real\<close>: arithmetic is exact, there is no rounding,
    no infinity and no NaN; the fusion rules are given a second time over floats that can
    be infinite or NaN, and the statement about the range of the confidence is made there;
  \<^item> \<^verbatim>\<open>Optional[T]\<close> is \<^typ>\<open>'a option\<close>; the truth value Python gives to an optional
    string (\<^verbatim>\<open>if s\<close>, \<^verbatim>\<open>s or ""\<close>) is written out by \<open>truthy\<close>;
  \<^item> a raised exception is the left summand of a result, \<open>Inl (Raise kind message)\<close>;
  \<^item> the module-level policy constants of \<^verbatim>\<open>fusion.py\<close> are the fields of a record
    that the decision functions take as their first argument.
\<close>

subsection \<open>Domain types (dto.py)\<close>

datatype Source = DCO | SIGGES | NLP

datatype AddressQuality = EXACT | PARTIAL | UNKNOWN

type_synonym date = "nat \<times> nat \<times> nat"

record ResidenceEvidence =
  origin :: Source
  comuna_code :: "string option"
  address :: "string option"
  p_model :: "real option"
  model_ver :: "string option"
  as_of_date :: "date option"

record Decision =
  region :: string
  region_code :: string
  comuna :: string
  comuna_code :: string
  address :: string
  confidence :: real
  sources :: "Source list"
  audit_id :: string

subsection \<open>Exceptions\<close>

text \<open>
  The classes are the subclasses of Python's \<^verbatim>\<open>Exception\<close> that the ports name
  (\<^verbatim>\<open>ports.py\<close>), \<^verbatim>\<open>ValueError\<close> and \<^verbatim>\<open>AttributeError\<close> raised by the core itself,
  and \<open>OtherException\<close> for any other subclass of \<^verbatim>\<open>Exception\<close>. The string is the
  exception's message, \<^verbatim>\<open>str(ex)\<close>.
\<close>

datatype exc_class =
  ValueError | AttributeError | TimeoutError
  | NotFoundError | DataQualityError | AuthError | OtherException

datatype exn = Raise exc_class string

type_synonym 'a result = "exn + 'a"

subsection \<open>Policy parameters (policy.py, and the defaults of fusion.py)\<close>

record policy =
  PREFER_NLP :: bool
  W_NLP :: real
  BOOST_AGREE :: real
  ADDR_BONUS_SIGGES :: real
  ADDR_BONUS_NLP :: real
  NLP_P_DEFAULT :: real
  DCO_BASE_CONF :: real
  DCO_NO_ADDRESS_PENALTY :: real
  SIGGES_ONLY_BASE :: real

definition default_policy :: policy where
  "default_policy =
     \<lparr>PREFER_NLP = True,
      W_NLP = 0.90,
      BOOST_AGREE = 0.15,
      ADDR_BONUS_SIGGES = 0.05,
      ADDR_BONUS_NLP = 0.03,
      NLP_P_DEFAULT = 0.70,
      DCO_BASE_CONF = 0.98,
      DCO_NO_ADDRESS_PENALTY = 0.92,
      SIGGES_ONLY_BASE = 0.65\<rparr>"

subsection \<open>Fusion (fusion.py)\<close>

record DecisionCore =
  comuna_code :: string
  address :: string
  confidence :: real
  sources :: "Source list"
  rule_path :: string
  tie_break_reason :: "string option"

text \<open>Python's truth value of an \<^verbatim>\<open>Optional[str]\<close>: neither \<^verbatim>\<open>None\<close> nor \<^verbatim>\<open>""\<close>.\<close>

fun truthy :: "string option \<Rightarrow> bool" where
  "truthy None = False"
| "truthy (Some s) = (s \<noteq> [])"

text \<open>\<^verbatim>\<open>s or ""\<close> for an \<^verbatim>\<open>Optional[str]\<close>.\<close>

fun or_empty :: "string option \<Rightarrow> string" where
  "or_empty None = []"
| "or_empty (Some s) = s"

definition clamp :: "real \<Rightarrow> real" where
  "clamp x = (let hi = 1; lo = 0 in if x > hi then hi else if x < lo then lo else x)"

fun quality_to_weight :: "AddressQuality option \<Rightarrow> real" where
  "quality_to_weight q =
     (if q = Some EXACT then 1.0
      else if q = Some PARTIAL then 0.7
      else if q = Some UNKNOWN then 0.4
      else 0.0)"

definition default_addr_weight :: "Source \<Rightarrow> string option \<Rightarrow> real" where
  "default_addr_weight source addr =
     (if \<not> truthy addr then 0.0
      else if source = SIGGES then 0.7 else 0.5)"

definition decide_deceased :: "policy \<Rightarrow> ResidenceEvidence option \<Rightarrow> DecisionCore result" where
  "decide_deceased pol dco_ev =
     (case dco_ev of
        None \<Rightarrow> Inl (Raise ValueError ''DCO evidence required with comuna_code for deceased path'')
      | Some ev \<Rightarrow>
         (case ResidenceEvidence.comuna_code ev of
            None \<Rightarrow> Inl (Raise ValueError ''DCO evidence required with comuna_code for deceased path'')
          | Some code \<Rightarrow>
             (let completeness =
                    (if truthy (ResidenceEvidence.address ev) then 1.0
                     else DCO_NO_ADDRESS_PENALTY pol);
                  conf = clamp (DCO_BASE_CONF pol * completeness)
              in Inr \<lparr>DecisionCore.comuna_code = code,
                      DecisionCore.address = or_empty (ResidenceEvidence.address ev),
                      DecisionCore.confidence = conf,
                      DecisionCore.sources = [DCO],
                      rule_path = ''DECEASED_DCO'',
                      tie_break_reason = None\<rparr>)))"

text \<open>
  \<^verbatim>\<open>decide_alive\<close>, case 1 (``NLP trae comuna''): the body of the first \<^verbatim>\<open>if\<close>, where
  \<open>nlp\<close> is the text-inference evidence and \<open>code\<close> its non-empty comuna code.
  \<open>agree\<close> is \<^verbatim>\<open>bool(sigges_ev and sigges_ev.comuna_code == nlp_ev.comuna_code)\<close>.
\<close>

definition decide_alive_nlp ::
  "policy \<Rightarrow> ResidenceEvidence \<Rightarrow> string \<Rightarrow> ResidenceEvidence option
     \<Rightarrow> AddressQuality option \<Rightarrow> AddressQuality option \<Rightarrow> DecisionCore" where
  "decide_alive_nlp pol nlp code sigges_ev addr_quality_sigges addr_quality_nlp =
     (let agree = (case sigges_ev of
                     None \<Rightarrow> False
                   | Some sig \<Rightarrow> ResidenceEvidence.comuna_code sig = Some code);
          sigges_address = (case sigges_ev of
                              None \<Rightarrow> None
                            | Some sig \<Rightarrow> ResidenceEvidence.address sig);
          (addr, addr_bonus, srcs, path) =
            (if agree then
               (or_empty sigges_address,
                ADDR_BONUS_SIGGES pol *
                  (if addr_quality_sigges \<noteq> None then quality_to_weight addr_quality_sigges
                   else default_addr_weight SIGGES sigges_address),
                [NLP, SIGGES],
                ''ALIVE_NLP_AGREE_SIGGES'')
             else
               (or_empty (ResidenceEvidence.address nlp),
                ADDR_BONUS_NLP pol *
                  (if addr_quality_nlp \<noteq> None then quality_to_weight addr_quality_nlp
                   else default_addr_weight NLP (ResidenceEvidence.address nlp)),
                [NLP],
                ''ALIVE_NLP_DISAGREE''));
          p = (case p_model nlp of Some pm \<Rightarrow> pm | None \<Rightarrow> NLP_P_DEFAULT pol);
          base = W_NLP pol * p;
          boost = (if agree then BOOST_AGREE pol else 0.0);
          conf = clamp (base + boost + addr_bonus)
      in \<lparr>DecisionCore.comuna_code = code,
          DecisionCore.address = addr,
          DecisionCore.confidence = conf,
          DecisionCore.sources = srcs,
          rule_path = path,
          tie_break_reason = None\<rparr>)"

text \<open>
  Cases 2 and 3: what \<^verbatim>\<open>decide_alive\<close> does once the first \<^verbatim>\<open>if\<close> has failed.
\<close>

definition decide_alive_no_nlp ::
  "policy \<Rightarrow> ResidenceEvidence option \<Rightarrow> AddressQuality option \<Rightarrow> DecisionCore result" where
  "decide_alive_no_nlp pol sigges_ev addr_quality_sigges =
     (let insufficient =
            Inl (Raise ValueError
              ''Insufficient evidence to decide for alive path (no comuna from NLP or SIGGES)'')
      in case sigges_ev of
           None \<Rightarrow> insufficient
         | Some sig \<Rightarrow>
            (case ResidenceEvidence.comuna_code sig of
               None \<Rightarrow> insufficient
             | Some code \<Rightarrow>
                if code = [] then insufficient
                else
                  (let addr = or_empty (ResidenceEvidence.address sig);
                       q_sigges =
                         (if addr_quality_sigges \<noteq> None then quality_to_weight addr_quality_sigges
                          else default_addr_weight SIGGES (ResidenceEvidence.address sig));
                       conf = clamp (SIGGES_ONLY_BASE pol + ADDR_BONUS_SIGGES pol * q_sigges)
                   in Inr \<lparr>DecisionCore.comuna_code = code,
                           DecisionCore.address = addr,
                           DecisionCore.confidence = conf,
                           DecisionCore.sources = [SIGGES],
                           rule_path = ''ALIVE_SIGGES_ONLY'',
                           tie_break_reason = None\<rparr>)))"

text \<open>
  \<^verbatim>\<open>decide_alive\<close>: the first test is \<^verbatim>\<open>nlp_ev and nlp_ev.comuna_code\<close>, true when the
  evidence is present and its comuna code is neither \<^verbatim>\<open>None\<close> nor empty.
\<close>

definition decide_alive ::
  "policy \<Rightarrow> ResidenceEvidence option \<Rightarrow> ResidenceEvidence option
     \<Rightarrow> AddressQuality option \<Rightarrow> AddressQuality option \<Rightarrow> DecisionCore result" where
  "decide_alive pol nlp_ev sigges_ev addr_quality_sigges addr_quality_nlp =
     (case nlp_ev of
        None \<Rightarrow> decide_alive_no_nlp pol sigges_ev addr_quality_sigges
      | Some nlp \<Rightarrow>
         (case ResidenceEvidence.comuna_code nlp of
            None \<Rightarrow> decide_alive_no_nlp pol sigges_ev addr_quality_sigges
          | Some code \<Rightarrow>
             if code = [] then decide_alive_no_nlp pol sigges_ev addr_quality_sigges
             else Inr (decide_alive_nlp pol nlp code sigges_ev addr_quality_sigges addr_quality_nlp)))"

subsection \<open>Ports (ports.py)\<close>

text \<open>
  A port is the function its protocol declares; a call either raises or returns. The
  deadline is the keyword argument \<^verbatim>\<open>deadline_ms\<close>. The readers are declared to return an
  evidence; the orchestrator also tests what they return for \<^verbatim>\<open>None\<close>, so the model lets
  them return it.
\<close>

type_synonym DCOReader = "string \<Rightarrow> string \<Rightarrow> int \<Rightarrow> ResidenceEvidence option result"

type_synonym SIGGESReader = "string \<Rightarrow> string \<Rightarrow> int \<Rightarrow> ResidenceEvidence option result"

type_synonym NLPAddressExtractor = "string list \<Rightarrow> int \<Rightarrow> ResidenceEvidence option result"

type_synonym AddressNormalizer = "string \<Rightarrow> (string \<times> AddressQuality) result"

record MapperCatalog =
  to_comuna_code :: "string \<Rightarrow> string option result"
  to_region_code :: "string \<Rightarrow> string result"
  to_comuna_name :: "string \<Rightarrow> string result"
  to_region_name :: "string \<Rightarrow> string result"

subsection \<open>Orchestrator (imputer.py)\<close>

text \<open>The attributes \<^verbatim>\<open>self._dco\<close>, \<^verbatim>\<open>self._sigges\<close>, ... of \<^verbatim>\<open>ResidenceImputer\<close>.\<close>

record ResidenceImputer =
  self_dco :: DCOReader
  self_sigges :: SIGGESReader
  self_nlp :: NLPAddressExtractor
  self_mapper :: MapperCatalog
  self_normalizer :: "AddressNormalizer option"
  self_global_soft_ms :: int
  self_budget_dco_ms :: int
  self_budget_sigges_ms :: int
  self_budget_nlp_ms :: int

text \<open>Python's \<^verbatim>\<open>int(x)\<close> on a float: truncation towards zero.\<close>

definition py_int :: "real \<Rightarrow> int" where
  "py_int x = (if 0 \<le> x then \<lfloor>x\<rfloor> else \<lceil>x\<rceil>)"

text \<open>
  The closure \<^verbatim>\<open>remaining_ms\<close> of \<^verbatim>\<open>decide\<close>: \<open>t0\<close> is the reading of
  \<^verbatim>\<open>time.monotonic()\<close> taken on entry and \<open>now\<close> the reading taken by this call.
\<close>

definition remaining_ms :: "ResidenceImputer \<Rightarrow> real \<Rightarrow> real \<Rightarrow> int" where
  "remaining_ms imp t0 now =
     (let elapsed = py_int ((now - t0) * 1000);
          rem = self_global_soft_ms imp - elapsed
      in if rem < 0 then 0 else rem)"

definition safe_fetch_dco ::
  "ResidenceImputer \<Rightarrow> string \<Rightarrow> string \<Rightarrow> int \<Rightarrow> ResidenceEvidence option result" where
  "safe_fetch_dco imp rut dv deadline_ms =
     (case self_dco imp rut dv deadline_ms of
        Inr ev \<Rightarrow> Inr ev
      | Inl (Raise cls msg) \<Rightarrow>
          Inl (Raise ValueError (''DCOReader.fetch failed for deceased path: '' @ msg)))"

text \<open>
  The two alive-path helpers. Every exception raised inside the \<^verbatim>\<open>try\<close>, by the
  connector or by the normaliser, ends in \<^verbatim>\<open>ev, q = None, None\<close>. The normaliser is
  called when there is an evidence, a non-empty address and a normaliser.
\<close>

definition safe_fetch_sigges_with_quality ::
  "ResidenceImputer \<Rightarrow> string \<Rightarrow> string \<Rightarrow> int
     \<Rightarrow> ResidenceEvidence option \<times> AddressQuality option" where
  "safe_fetch_sigges_with_quality imp rut dv deadline_ms =
     (case self_sigges imp rut dv deadline_ms of
        Inl ex \<Rightarrow> (None, None)
      | Inr None \<Rightarrow> (None, None)
      | Inr (Some ev) \<Rightarrow>
         (case ResidenceEvidence.address ev of
            None \<Rightarrow> (Some ev, None)
          | Some a \<Rightarrow>
             if a = [] then (Some ev, None)
             else
               (case self_normalizer imp of
                  None \<Rightarrow> (Some ev, None)
                | Some normalizer \<Rightarrow>
                   (case normalizer a of
                      Inl ex \<Rightarrow> (None, None)
                    | Inr (std, q) \<Rightarrow>
                        (Some (ev\<lparr>ResidenceEvidence.address := Some std\<rparr>), Some q)))))"

definition safe_infer_nlp_with_quality ::
  "ResidenceImputer \<Rightarrow> string list \<Rightarrow> int
     \<Rightarrow> ResidenceEvidence option \<times> AddressQuality option" where
  "safe_infer_nlp_with_quality imp texts deadline_ms =
     (case self_nlp imp texts deadline_ms of
        Inl ex \<Rightarrow> (None, None)
      | Inr None \<Rightarrow> (None, None)
      | Inr (Some ev) \<Rightarrow>
         (case ResidenceEvidence.address ev of
            None \<Rightarrow> (Some ev, None)
          | Some a \<Rightarrow>
             if a = [] then (Some ev, None)
             else
               (case self_normalizer imp of
                  None \<Rightarrow> (Some ev, None)
                | Some normalizer \<Rightarrow>
                   (case normalizer a of
                      Inl ex \<Rightarrow> (None, None)
                    | Inr (std, q) \<Rightarrow>
                        (Some (ev\<lparr>ResidenceEvidence.address := Some std\<rparr>), Some q)))))"

definition complete_decision :: "ResidenceImputer \<Rightarrow> DecisionCore \<Rightarrow> string \<Rightarrow> Decision result" where
  "complete_decision imp core audit =
     (let code = DecisionCore.comuna_code core in
      case to_region_code (self_mapper imp) code of
        Inl ex \<Rightarrow> Inl ex
      | Inr rcode \<Rightarrow>
         (case to_comuna_name (self_mapper imp) code of
            Inl ex \<Rightarrow> Inl ex
          | Inr comuna_name \<Rightarrow>
             (case to_region_name (self_mapper imp) rcode of
                Inl ex \<Rightarrow> Inl ex
              | Inr region_name \<Rightarrow>
                 Inr \<lparr>region = region_name,
                      region_code = rcode,
                      comuna = comuna_name,
                      Decision.comuna_code = code,
                      Decision.address = or_empty (Some (DecisionCore.address core)),
                      Decision.confidence = DecisionCore.confidence core,
                      Decision.sources = DecisionCore.sources core,
                      audit_id = audit\<rparr>)))"

text \<open>
  \<^verbatim>\<open>decide\<close>. \<open>monotonic k\<close> is what the \<open>k\<close>-th call of \<^verbatim>\<open>time.monotonic()\<close> of this
  request returns, in seconds: call 0 sets \<^verbatim>\<open>t0\<close>, and each \<^verbatim>\<open>remaining_ms()\<close> makes the
  next call. On the deceased path \<^verbatim>\<open>dco_ev.address\<close> is read only when a normaliser is
  configured, and raises \<^verbatim>\<open>AttributeError\<close> on \<^verbatim>\<open>None\<close>.
\<close>

definition decide ::
  "policy \<Rightarrow> ResidenceImputer \<Rightarrow> (nat \<Rightarrow> real) \<Rightarrow> string \<Rightarrow> string \<Rightarrow> int
     \<Rightarrow> string option \<Rightarrow> string option \<Rightarrow> string \<Rightarrow> Decision result" where
  "decide pol imp monotonic rut dv vital_status ges_text noges_text audit =
     (let t0 = monotonic 0 in
      if vital_status = 2 then
        (case safe_fetch_dco imp rut dv
                (min (self_budget_dco_ms imp) (remaining_ms imp t0 (monotonic 1))) of
           Inl ex \<Rightarrow> Inl ex
         | Inr dco_ev \<Rightarrow>
            (let normalized =
                   (case self_normalizer imp of
                      None \<Rightarrow> Inr dco_ev
                    | Some normalizer \<Rightarrow>
                       (case dco_ev of
                          None \<Rightarrow>
                            Inl (Raise AttributeError
                                  ([CHR 0x27] @ ''NoneType'' @ [CHR 0x27] @ '' object has no attribute ''
                                    @ [CHR 0x27] @ ''address'' @ [CHR 0x27]))
                        | Some ev \<Rightarrow>
                           (case ResidenceEvidence.address ev of
                              None \<Rightarrow> Inr dco_ev
                            | Some a \<Rightarrow>
                               if a = [] then Inr dco_ev
                               else
                                 (case normalizer a of
                                    Inl ex \<Rightarrow> Inl ex
                                  | Inr (std, q) \<Rightarrow>
                                      Inr (Some (ev\<lparr>ResidenceEvidence.address := Some std\<rparr>))))))
             in case normalized of
                  Inl ex \<Rightarrow> Inl ex
                | Inr dco_ev' \<Rightarrow>
                   (case decide_deceased pol dco_ev' of
                      Inl ex \<Rightarrow> Inl ex
                    | Inr core \<Rightarrow> complete_decision imp core audit)))
      else
        (let (sigges_ev, q_sigges) =
               safe_fetch_sigges_with_quality imp rut dv
                 (min (self_budget_sigges_ms imp) (remaining_ms imp t0 (monotonic 1)));
             texts = map or_empty (filter truthy [ges_text, noges_text]);
             (nlp_ev, q_nlp) =
               (if texts \<noteq> [] then
                  safe_infer_nlp_with_quality imp texts
                    (min (self_budget_nlp_ms imp) (remaining_ms imp t0 (monotonic 2)))
                else (None, None))
         in case decide_alive pol nlp_ev sigges_ev q_sigges q_nlp of
              Inl ex \<Rightarrow> Inl ex
            | Inr core \<Rightarrow> complete_decision imp core audit))"

subsection \<open>Floats with their special values\<close>

text \<open>
  The fusion rules once more, over floats that can be infinite or NaN, for the
  statements that depend on those values. A float is a finite number, one of the two
  infinities or NaN. The operations follow IEEE 754 on the special values: NaN
  propagates, infinity times zero and the sum of opposite infinities are NaN, and every
  comparison with NaN is false. On finite numbers the arithmetic is exact (no rounding,
  no overflow), and the two zeros are one number.
\<close>

datatype pyfloat = Finite real | PosInf | NegInf | NaN

fun fmul :: "pyfloat \<Rightarrow> pyfloat \<Rightarrow> pyfloat" where
  "fmul NaN y = NaN"
| "fmul x NaN = NaN"
| "fmul (Finite a) (Finite b) = Finite (a * b)"
| "fmul (Finite a) PosInf = (if a = 0 then NaN else if 0 < a then PosInf else NegInf)"
| "fmul (Finite a) NegInf = (if a = 0 then NaN else if 0 < a then NegInf else PosInf)"
| "fmul PosInf (Finite b) = (if b = 0 then NaN else if 0 < b then PosInf else NegInf)"
| "fmul NegInf (Finite b) = (if b = 0 then NaN else if 0 < b then NegInf else PosInf)"
| "fmul PosInf PosInf = PosInf"
| "fmul PosInf NegInf = NegInf"
| "fmul NegInf PosInf = NegInf"
| "fmul NegInf NegInf = PosInf"

fun fadd :: "pyfloat \<Rightarrow> pyfloat \<Rightarrow> pyfloat" where
  "fadd NaN y = NaN"
| "fadd x NaN = NaN"
| "fadd (Finite a) (Finite b) = Finite (a + b)"
| "fadd PosInf NegInf = NaN"
| "fadd NegInf PosInf = NaN"
| "fadd PosInf y = PosInf"
| "fadd NegInf y = NegInf"
| "fadd x PosInf = PosInf"
| "fadd x NegInf = NegInf"

text \<open>\<open>flt x y\<close> is \<^verbatim>\<open>x < y\<close> and \<open>fle x y\<close> is \<^verbatim>\<open>x <= y\<close>.\<close>

fun flt :: "pyfloat \<Rightarrow> pyfloat \<Rightarrow> bool" where
  "flt NaN y = False"
| "flt x NaN = False"
| "flt (Finite a) (Finite b) = (a < b)"
| "flt PosInf y = False"
| "flt x NegInf = False"
| "flt NegInf y = True"
| "flt x PosInf = True"




record ResidenceEvidence_fp =
  origin_fp :: Source
  comuna_code_fp :: "string option"
  address_fp :: "string option"
  p_model_fp :: "pyfloat option"
  model_ver_fp :: "string option"
  as_of_date_fp :: "date option"

record policy_fp =
  PREFER_NLP_fp :: bool
  W_NLP_fp :: pyfloat
  BOOST_AGREE_fp :: pyfloat
  ADDR_BONUS_SIGGES_fp :: pyfloat
  ADDR_BONUS_NLP_fp :: pyfloat
  NLP_P_DEFAULT_fp :: pyfloat
  DCO_BASE_CONF_fp :: pyfloat
  DCO_NO_ADDRESS_PENALTY_fp :: pyfloat
  SIGGES_ONLY_BASE_fp :: pyfloat


record DecisionCore_fp =
  comuna_code_fp :: string
  address_fp :: string
  confidence_fp :: pyfloat
  sources_fp :: "Source list"
  rule_path_fp :: string
  tie_break_reason_fp :: "string option"

text \<open>\<^verbatim>\<open>hi if x > hi else lo if x < lo else x\<close>: NaN fails both tests and is returned.\<close>

definition clamp_fp :: "pyfloat \<Rightarrow> pyfloat" where
  "clamp_fp x =
     (let hi = Finite 1.0; lo = Finite 0.0
      in if flt hi x then hi else if flt x lo then lo else x)"

fun quality_to_weight_fp :: "AddressQuality option \<Rightarrow> pyfloat" where
  "quality_to_weight_fp q =
     (if q = Some EXACT then Finite 1.0
      else if q = Some PARTIAL then Finite 0.7
      else if q = Some UNKNOWN then Finite 0.4
      else Finite 0.0)"

definition default_addr_weight_fp :: "Source \<Rightarrow> string option \<Rightarrow> pyfloat" where
  "default_addr_weight_fp source addr =
     (if \<not> truthy addr then Finite 0.0
      else if source = SIGGES then Finite 0.7 else Finite 0.5)"

definition decide_deceased_fp ::
  "policy_fp \<Rightarrow> ResidenceEvidence_fp option \<Rightarrow> DecisionCore_fp result" where
  "decide_deceased_fp pol dco_ev =
     (case dco_ev of
        None \<Rightarrow> Inl (Raise ValueError ''DCO evidence required with comuna_code for deceased path'')
      | Some ev \<Rightarrow>
         (case ResidenceEvidence_fp.comuna_code_fp ev of
            None \<Rightarrow> Inl (Raise ValueError ''DCO evidence required with comuna_code for deceased path'')
          | Some code \<Rightarrow>
             (let completeness =
                    (if truthy (ResidenceEvidence_fp.address_fp ev) then Finite 1.0
                     else DCO_NO_ADDRESS_PENALTY_fp pol);
                  conf = clamp_fp (fmul (DCO_BASE_CONF_fp pol) completeness)
              in Inr \<lparr>DecisionCore_fp.comuna_code_fp = code,
                      DecisionCore_fp.address_fp = or_empty (ResidenceEvidence_fp.address_fp ev),
                      confidence_fp = conf,
                      sources_fp = [DCO],
                      rule_path_fp = ''DECEASED_DCO'',
                      tie_break_reason_fp = None\<rparr>)))"

definition decide_alive_nlp_fp ::
  "policy_fp \<Rightarrow> ResidenceEvidence_fp \<Rightarrow> string \<Rightarrow> ResidenceEvidence_fp option
     \<Rightarrow> AddressQuality option \<Rightarrow> AddressQuality option \<Rightarrow> DecisionCore_fp" where
  "decide_alive_nlp_fp pol nlp code sigges_ev addr_quality_sigges addr_quality_nlp =
     (let agree = (case sigges_ev of
                     None \<Rightarrow> False
                   | Some sig \<Rightarrow> ResidenceEvidence_fp.comuna_code_fp sig = Some code);
          sigges_address = (case sigges_ev of
                              None \<Rightarrow> None
                            | Some sig \<Rightarrow> ResidenceEvidence_fp.address_fp sig);
          (addr, addr_bonus, srcs, path) =
            (if agree then
               (or_empty sigges_address,
                fmul (ADDR_BONUS_SIGGES_fp pol)
                  (if addr_quality_sigges \<noteq> None then quality_to_weight_fp addr_quality_sigges
                   else default_addr_weight_fp SIGGES sigges_address),
                [NLP, SIGGES],
                ''ALIVE_NLP_AGREE_SIGGES'')
             else
               (or_empty (ResidenceEvidence_fp.address_fp nlp),
                fmul (ADDR_BONUS_NLP_fp pol)
                  (if addr_quality_nlp \<noteq> None then quality_to_weight_fp addr_quality_nlp
                   else default_addr_weight_fp NLP (ResidenceEvidence_fp.address_fp nlp)),
                [NLP],
                ''ALIVE_NLP_DISAGREE''));
          p = (case p_model_fp nlp of Some pm \<Rightarrow> pm | None \<Rightarrow> NLP_P_DEFAULT_fp pol);
          base = fmul (W_NLP_fp pol) p;
          boost = (if agree then BOOST_AGREE_fp pol else Finite 0.0);
          conf = clamp_fp (fadd (fadd base boost) addr_bonus)
      in \<lparr>DecisionCore_fp.comuna_code_fp = code,
          DecisionCore_fp.address_fp = addr,
          confidence_fp = conf,
          sources_fp = srcs,
          rule_path_fp = path,
          tie_break_reason_fp = None\<rparr>)"

definition decide_alive_no_nlp_fp ::
  "policy_fp \<Rightarrow> ResidenceEvidence_fp option \<Rightarrow> AddressQuality option
     \<Rightarrow> DecisionCore_fp result" where
  "decide_alive_no_nlp_fp pol sigges_ev addr_quality_sigges =
     (let insufficient =
            Inl (Raise ValueError
              ''Insufficient evidence to decide for alive path (no comuna from NLP or SIGGES)'')
      in case sigges_ev of
           None \<Rightarrow> insufficient
         | Some sig \<Rightarrow>
            (case ResidenceEvidence_fp.comuna_code_fp sig of
               None \<Rightarrow> insufficient
             | Some code \<Rightarrow>
                if code = [] then insufficient
                else
                  (let addr = or_empty (ResidenceEvidence_fp.address_fp sig);
                       q_sigges =
                         (if addr_quality_sigges \<noteq> None
                          then quality_to_weight_fp addr_quality_sigges
                          else default_addr_weight_fp SIGGES (ResidenceEvidence_fp.address_fp sig));
                       conf = clamp_fp (fadd (SIGGES_ONLY_BASE_fp pol)
                                         (fmul (ADDR_BONUS_SIGGES_fp pol) q_sigges))
                   in Inr \<lparr>DecisionCore_fp.comuna_code_fp = code,
                           DecisionCore_fp.address_fp = addr,
                           confidence_fp = conf,
                           sources_fp = [SIGGES],
                           rule_path_fp = ''ALIVE_SIGGES_ONLY'',
                           tie_break_reason_fp = None\<rparr>)))"

definition decide_alive_fp ::
  "policy_fp \<Rightarrow> ResidenceEvidence_fp option \<Rightarrow> ResidenceEvidence_fp option
     \<Rightarrow> AddressQuality option \<Rightarrow> AddressQuality option \<Rightarrow> DecisionCore_fp result" where
  "decide_alive_fp pol nlp_ev sigges_ev addr_quality_sigges addr_quality_nlp =
     (case nlp_ev of
        None \<Rightarrow> decide_alive_no_nlp_fp pol sigges_ev addr_quality_sigges
      | Some nlp \<Rightarrow>
         (case ResidenceEvidence_fp.comuna_code_fp nlp of
            None \<Rightarrow> decide_alive_no_nlp_fp pol sigges_ev addr_quality_sigges
          | Some code \<Rightarrow>
             if code = [] then decide_alive_no_nlp_fp pol sigges_ev addr_quality_sigges
             else Inr (decide_alive_nlp_fp pol nlp code sigges_ev
                         addr_quality_sigges addr_quality_nlp)))"



text \<open>The real-valued records as records of finite floats.\<close>

definition evidence_fp :: "ResidenceEvidence \<Rightarrow> ResidenceEvidence_fp" where
  "evidence_fp ev =
     \<lparr>origin_fp = origin ev,
      ResidenceEvidence_fp.comuna_code_fp = ResidenceEvidence.comuna_code ev,
      ResidenceEvidence_fp.address_fp = ResidenceEvidence.address ev,
      p_model_fp = map_option Finite (p_model ev),
      model_ver_fp = model_ver ev,
      as_of_date_fp = as_of_date ev\<rparr>"

definition policy_to_fp :: "policy \<Rightarrow> policy_fp" where
  "policy_to_fp pol =
     \<lparr>PREFER_NLP_fp = PREFER_NLP pol,
      W_NLP_fp = Finite (W_NLP pol),
      BOOST_AGREE_fp = Finite (BOOST_AGREE pol),
      ADDR_BONUS_SIGGES_fp = Finite (ADDR_BONUS_SIGGES pol),
      ADDR_BONUS_NLP_fp = Finite (ADDR_BONUS_NLP pol),
      NLP_P_DEFAULT_fp = Finite (NLP_P_DEFAULT pol),
      DCO_BASE_CONF_fp = Finite (DCO_BASE_CONF pol),
      DCO_NO_ADDRESS_PENALTY_fp = Finite (DCO_NO_ADDRESS_PENALTY pol),
      SIGGES_ONLY_BASE_fp = Finite (SIGGES_ONLY_BASE pol)\<rparr>"

definition decision_core_fp :: "DecisionCore \<Rightarrow> DecisionCore_fp" where
  "decision_core_fp d =
     \<lparr>DecisionCore_fp.comuna_code_fp = DecisionCore.comuna_code d,
      DecisionCore_fp.address_fp = DecisionCore.address d,
      confidence_fp = Finite (DecisionCore.confidence d),
      sources_fp = DecisionCore.sources d,
      rule_path_fp = rule_path d,
      tie_break_reason_fp = tie_break_reason d\<rparr>"

subsection \<open>Vocabulary of the specification\<close>

text \<open>
  An evidence ``carries a comuna code'' when it is present and its code is a non-empty
  string: the test \<^verbatim>\<open>ev and ev.comuna_code\<close>.
\<close>

definition carries_comuna :: "ResidenceEvidence option \<Rightarrow> bool" where
  "carries_comuna ev_opt =
     (case ev_opt of None \<Rightarrow> False | Some ev \<Rightarrow> truthy (ResidenceEvidence.comuna_code ev))"

text \<open>
  The specification's \<^verbatim>\<open>quality_weight(address)\<close>, from its words: the explicit hint
  decides when there is one (EXACT 1.0, PARTIAL 0.7, UNKNOWN 0.4); otherwise 0.0 without
  an address text, else 0.7 for a claims-system address and 0.5 for a text-inference
  address. The specification weighs no registry address; \<open>DCO\<close> is given the
  text-inference weight here.
\<close>

definition spec_quality_weight :: "Source \<Rightarrow> AddressQuality option \<Rightarrow> string option \<Rightarrow> real" where
  "spec_quality_weight src hint addr =
     (case hint of
        Some EXACT \<Rightarrow> 1.0
      | Some PARTIAL \<Rightarrow> 0.7
      | Some UNKNOWN \<Rightarrow> 0.4
      | None \<Rightarrow>
         (case addr of
            None \<Rightarrow> 0.0
          | Some a \<Rightarrow> if a = [] then 0.0 else (case src of SIGGES \<Rightarrow> 0.7 | _ \<Rightarrow> 0.5)))"

text \<open>The model probability that enters the confidence: \<^verbatim>\<open>p_model\<close>, or the default.\<close>

definition model_probability :: "policy \<Rightarrow> ResidenceEvidence \<Rightarrow> real" where
  "model_probability pol nlp = (case p_model nlp of Some pm \<Rightarrow> pm | None \<Rightarrow> NLP_P_DEFAULT pol)"

definition insufficient_alive :: exn where
  "insufficient_alive =
     Raise ValueError
       ''Insufficient evidence to decide for alive path (no comuna from NLP or SIGGES)''"

definition insufficient_deceased :: exn where
  "insufficient_deceased =
     Raise ValueError ''DCO evidence required with comuna_code for deceased path''"

text \<open>
  The arguments \<^verbatim>\<open>decide\<close> passes to the connectors: the deadlines
  \<^verbatim>\<open>min(budget, remaining_ms())\<close> at the first and at the second reading of the clock
  after \<^verbatim>\<open>t0\<close>, and the non-empty texts.
\<close>

definition deadline_dco :: "ResidenceImputer \<Rightarrow> (nat \<Rightarrow> real) \<Rightarrow> int" where
  "deadline_dco imp monotonic =
     min (self_budget_dco_ms imp) (remaining_ms imp (monotonic 0) (monotonic 1))"

definition deadline_sigges :: "ResidenceImputer \<Rightarrow> (nat \<Rightarrow> real) \<Rightarrow> int" where
  "deadline_sigges imp monotonic =
     min (self_budget_sigges_ms imp) (remaining_ms imp (monotonic 0) (monotonic 1))"

definition deadline_nlp :: "ResidenceImputer \<Rightarrow> (nat \<Rightarrow> real) \<Rightarrow> int" where
  "deadline_nlp imp monotonic =
     min (self_budget_nlp_ms imp) (remaining_ms imp (monotonic 0) (monotonic 2))"

definition nonempty_texts :: "string option \<Rightarrow> string option \<Rightarrow> string list" where
  "nonempty_texts ges_text noges_text = map or_empty (filter truthy [ges_text, noges_text])"

text \<open>A connector that returns no evidence, and the imputer with that connector.\<close>

definition without_sigges :: "ResidenceImputer \<Rightarrow> ResidenceImputer" where
  "without_sigges imp = imp\<lparr>self_sigges := (\<lambda>rut dv deadline_ms. Inr None)\<rparr>"

definition without_nlp :: "ResidenceImputer \<Rightarrow> ResidenceImputer" where
  "without_nlp imp = imp\<lparr>self_nlp := (\<lambda>texts deadline_ms. Inr None)\<rparr>"

subsection \<open>Concrete inputs\<close>

text \<open>The evidences of the two alive-path scenarios of the specification.\<close>

definition scenario_nlp_ev :: ResidenceEvidence where
  "scenario_nlp_ev =
     \<lparr>origin = NLP, ResidenceEvidence.comuna_code = Some ''05101'',
      ResidenceEvidence.address = None, p_model = Some 0.8, model_ver = None,
      as_of_date = None\<rparr>"

definition scenario_sigges_ev :: ResidenceEvidence where
  "scenario_sigges_ev =
     \<lparr>origin = SIGGES, ResidenceEvidence.comuna_code = Some ''05101'',
      ResidenceEvidence.address = Some ''Av. X 100'', p_model = None, model_ver = None,
      as_of_date = None\<rparr>"

text \<open>Registry evidences: with a comuna and no address, and with an empty comuna code.\<close>

definition dco_no_address_ev :: ResidenceEvidence where
  "dco_no_address_ev =
     \<lparr>origin = DCO, ResidenceEvidence.comuna_code = Some ''05101'',
      ResidenceEvidence.address = None, p_model = None, model_ver = None,
      as_of_date = None\<rparr>"

definition dco_empty_comuna_ev :: ResidenceEvidence where
  "dco_empty_comuna_ev =
     \<lparr>origin = DCO, ResidenceEvidence.comuna_code = Some [],
      ResidenceEvidence.address = None, p_model = None, model_ver = None,
      as_of_date = None\<rparr>"

text \<open>A text-inference evidence whose comuna code is the empty string.\<close>

definition nlp_empty_comuna_ev :: ResidenceEvidence where
  "nlp_empty_comuna_ev =
     \<lparr>origin = NLP, ResidenceEvidence.comuna_code = Some [],
      ResidenceEvidence.address = Some ''Calle 1'', p_model = Some 0.9, model_ver = None,
      as_of_date = None\<rparr>"


text \<open>
  An imputer whose registry and claims-system connectors fail and whose text-inference
  connector answers with the scenario's evidence; the catalog knows one comuna.
\<close>

definition example_mapper :: MapperCatalog where
  "example_mapper =
     \<lparr>to_comuna_code = (\<lambda>name. Inr (if name = ''Valparaiso'' then Some ''05101'' else None)),
      to_region_code = (\<lambda>code. if code = ''05101'' then Inr ''05''
                                else Inl (Raise DataQualityError ''unknown comuna'')),
      to_comuna_name = (\<lambda>code. if code = ''05101'' then Inr ''Valparaiso''
                                else Inl (Raise DataQualityError ''unknown comuna'')),
      to_region_name = (\<lambda>rcode. if rcode = ''05'' then Inr ''Valparaiso''
                                 else Inl (Raise DataQualityError ''unknown region''))\<rparr>"

definition example_imputer :: ResidenceImputer where
  "example_imputer =
     \<lparr>self_dco = (\<lambda>rut dv deadline_ms. Inl (Raise NotFoundError ''no record'')),
      self_sigges = (\<lambda>rut dv deadline_ms. Inl (Raise TimeoutError ''deadline exceeded'')),
      self_nlp = (\<lambda>texts deadline_ms. Inr (Some scenario_nlp_ev)),
      self_mapper = example_mapper,
      self_normalizer = None,
      self_global_soft_ms = 1800,
      self_budget_dco_ms = 200,
      self_budget_sigges_ms = 200,
      self_budget_nlp_ms = 900\<rparr>"

definition example_clock :: "nat \<Rightarrow> real" where
  "example_clock k = 100 + real k * 0.05"

text \<open>The same imputer with a claims system that answers and a text inference that fails.\<close>

definition example_imputer_nlp_down :: ResidenceImputer where
  "example_imputer_nlp_down =
     example_imputer
       \<lparr>self_sigges := (\<lambda>rut dv deadline_ms. Inr (Some scenario_sigges_ev)),
        self_nlp := (\<lambda>texts deadline_ms. Inl (Raise DataQualityError ''no usable text''))\<rparr>"




section \<open>Properties\<close>

subsection \<open>Helper lemmas\<close>

text \<open>The weight the code computes is the specification's \<open>quality_weight\<close>.\<close>

lemma weight_refines_spec:
  "(if hint \<noteq> None then quality_to_weight hint else default_addr_weight src addr)
     = spec_quality_weight src hint addr"
proof (cases hint)
  case None
  then show ?thesis
    by (cases addr; cases src) (simp_all add: default_addr_weight_def spec_quality_weight_def)
next
  case (Some q)
  then show ?thesis
    by (cases q) (simp_all add: spec_quality_weight_def)
qed

text \<open>What \<^verbatim>\<open>decide_alive\<close> does in each of its three cases.\<close>

lemma decide_alive_case_nlp:
  assumes "ResidenceEvidence.comuna_code nlp = Some code" and "code \<noteq> []"
  shows "decide_alive pol (Some nlp) sigges_ev qs qn
           = Inr (decide_alive_nlp pol nlp code sigges_ev qs qn)"
  using assms by (simp add: decide_alive_def)

lemma decide_alive_case_no_nlp:
  assumes "\<not> carries_comuna nlp_ev"
  shows "decide_alive pol nlp_ev sigges_ev qs qn = decide_alive_no_nlp pol sigges_ev qs"
  using assms by (auto simp: decide_alive_def carries_comuna_def split: option.splits)

lemma decide_alive_no_nlp_sigges:
  assumes "ResidenceEvidence.comuna_code sig = Some code" and "code \<noteq> []"
  shows "decide_alive_no_nlp pol (Some sig) qs =
           Inr \<lparr>DecisionCore.comuna_code = code,
                DecisionCore.address = or_empty (ResidenceEvidence.address sig),
                DecisionCore.confidence =
                  clamp (SIGGES_ONLY_BASE pol
                         + ADDR_BONUS_SIGGES pol
                           * spec_quality_weight SIGGES qs (ResidenceEvidence.address sig)),
                DecisionCore.sources = [SIGGES],
                rule_path = ''ALIVE_SIGGES_ONLY'',
                tie_break_reason = None\<rparr>"
  using assms weight_refines_spec [of qs SIGGES "ResidenceEvidence.address sig"]
  by (simp add: decide_alive_no_nlp_def Let_def)

lemma decide_alive_no_nlp_insufficient:
  assumes "\<not> carries_comuna sigges_ev"
  shows "decide_alive_no_nlp pol sigges_ev qs = Inl insufficient_alive"
  using assms
  by (auto simp: decide_alive_no_nlp_def carries_comuna_def insufficient_alive_def Let_def
           split: option.splits)

lemma decide_alive_nlp_disagree:
  assumes "\<And>sig. sigges_ev = Some sig \<Longrightarrow> ResidenceEvidence.comuna_code sig \<noteq> Some code"
  shows "decide_alive_nlp pol nlp code sigges_ev qs qn =
           \<lparr>DecisionCore.comuna_code = code,
            DecisionCore.address = or_empty (ResidenceEvidence.address nlp),
            DecisionCore.confidence =
              clamp (W_NLP pol * model_probability pol nlp
                     + ADDR_BONUS_NLP pol
                       * spec_quality_weight NLP qn (ResidenceEvidence.address nlp)),
            DecisionCore.sources = [NLP],
            rule_path = ''ALIVE_NLP_DISAGREE'',
            tie_break_reason = None\<rparr>"
proof -
  have "\<not> (case sigges_ev of None \<Rightarrow> False
            | Some sig \<Rightarrow> ResidenceEvidence.comuna_code sig = Some code)"
    using assms by (cases sigges_ev) auto
  then show ?thesis
    using weight_refines_spec [of qn NLP "ResidenceEvidence.address nlp"]
    by (simp add: decide_alive_nlp_def Let_def model_probability_def)
qed

lemma decide_alive_nlp_agree:
  assumes "ResidenceEvidence.comuna_code sig = Some code"
  shows "decide_alive_nlp pol nlp code (Some sig) qs qn =
           \<lparr>DecisionCore.comuna_code = code,
            DecisionCore.address = or_empty (ResidenceEvidence.address sig),
            DecisionCore.confidence =
              clamp (W_NLP pol * model_probability pol nlp + BOOST_AGREE pol
                     + ADDR_BONUS_SIGGES pol
                       * spec_quality_weight SIGGES qs (ResidenceEvidence.address sig)),
            DecisionCore.sources = [NLP, SIGGES],
            rule_path = ''ALIVE_NLP_AGREE_SIGGES'',
            tie_break_reason = None\<rparr>"
  using assms weight_refines_spec [of qs SIGGES "ResidenceEvidence.address sig"]
  by (simp add: decide_alive_nlp_def Let_def model_probability_def)

text \<open>\<^verbatim>\<open>decide_alive\<close> never returns an empty comuna code.\<close>

lemma decide_alive_comuna_nonempty:
  assumes "decide_alive pol nlp_ev sigges_ev qs qn = Inr d"
  shows "DecisionCore.comuna_code d \<noteq> []"
  using assms
  by (auto simp: decide_alive_def decide_alive_nlp_def decide_alive_no_nlp_def Let_def
           split: option.splits if_splits prod.splits)

subsection \<open>The clamp invariant\<close>

lemma clamp_fp_Finite: "clamp_fp (Finite r) = Finite (clamp r)"
  by (simp add: clamp_fp_def clamp_def Let_def)












text \<open>
  On finite numbers the float functions compute what the real-valued functions compute.
\<close>

lemma weight_fp_Finite:
  "quality_to_weight_fp hint = Finite (quality_to_weight hint)"
  "default_addr_weight_fp src addr = Finite (default_addr_weight src addr)"
  by (simp_all add: default_addr_weight_fp_def default_addr_weight_def)

lemma decide_deceased_fp_refines:
  "decide_deceased_fp (policy_to_fp pol) (map_option evidence_fp dco_ev)
     = map_sum id decision_core_fp (decide_deceased pol dco_ev)"
  by (simp add: decide_deceased_fp_def decide_deceased_def policy_to_fp_def evidence_fp_def
                decision_core_fp_def clamp_fp_Finite Let_def split: option.splits)

lemma decide_alive_nlp_fp_refines:
  "decide_alive_nlp_fp (policy_to_fp pol) (evidence_fp nlp) code
       (map_option evidence_fp sigges_ev) qs qn
     = decision_core_fp (decide_alive_nlp pol nlp code sigges_ev qs qn)"
  by (cases sigges_ev; cases "p_model nlp")
     (simp_all add: decide_alive_nlp_fp_def decide_alive_nlp_def policy_to_fp_def
                    evidence_fp_def decision_core_fp_def clamp_fp_Finite weight_fp_Finite Let_def
               del: quality_to_weight_fp.simps quality_to_weight.simps)

lemma decide_alive_no_nlp_fp_refines:
  "decide_alive_no_nlp_fp (policy_to_fp pol) (map_option evidence_fp sigges_ev) qs
     = map_sum id decision_core_fp (decide_alive_no_nlp pol sigges_ev qs)"
proof (cases sigges_ev)
  case None
  then show ?thesis
    by (simp add: decide_alive_no_nlp_fp_def decide_alive_no_nlp_def)
next
  case (Some sig)
  show ?thesis
  proof (cases "ResidenceEvidence.comuna_code sig")
    case None
    with Some show ?thesis
      by (simp add: decide_alive_no_nlp_fp_def decide_alive_no_nlp_def evidence_fp_def)
  next
    case (Some code)
    with \<open>sigges_ev = Some sig\<close> show ?thesis
      by (simp add: decide_alive_no_nlp_fp_def decide_alive_no_nlp_def policy_to_fp_def
                    evidence_fp_def decision_core_fp_def clamp_fp_Finite weight_fp_Finite Let_def
               del: quality_to_weight_fp.simps quality_to_weight.simps)
  qed
qed

lemma decide_alive_fp_refines:
  "decide_alive_fp (policy_to_fp pol) (map_option evidence_fp nlp_ev)
       (map_option evidence_fp sigges_ev) qs qn
     = map_sum id decision_core_fp (decide_alive pol nlp_ev sigges_ev qs qn)"
proof -
  have c: "ResidenceEvidence_fp.comuna_code_fp (evidence_fp ev) = ResidenceEvidence.comuna_code ev"
    for ev by (simp add: evidence_fp_def)
  show ?thesis
    by (simp add: decide_alive_fp_def decide_alive_def c decide_alive_nlp_fp_refines
                  decide_alive_no_nlp_fp_refines split: option.splits)
qed




subsection \<open>The deceased path\<close>

text \<open>
  Claim C2. \<^verbatim>\<open>decide_deceased\<close> raises the domain error when the evidence is absent and
  when its comuna code is \<^verbatim>\<open>None\<close>. For an evidence with a comuna code it returns that
  code with sources \<open>[DCO]\<close> and rule path \<open>DECEASED_DCO\<close>; the confidence is
  \<open>DCO_BASE_CONF\<close>, 0.98, when there is an address, and exactly
  \<open>DCO_BASE_CONF * DCO_NO_ADDRESS_PENALTY\<close> when there is none.
\<close>

theorem decide_deceased_cases:
  "decide_deceased default_policy None = Inl insufficient_deceased
   \<and> (ResidenceEvidence.comuna_code ev = None
        \<longrightarrow> decide_deceased default_policy (Some ev) = Inl insufficient_deceased)
   \<and> (\<forall>code. ResidenceEvidence.comuna_code ev = Some code
        \<longrightarrow> decide_deceased default_policy (Some ev) =
              Inr \<lparr>DecisionCore.comuna_code = code,
                   DecisionCore.address = or_empty (ResidenceEvidence.address ev),
                   DecisionCore.confidence =
                     (if truthy (ResidenceEvidence.address ev) then DCO_BASE_CONF default_policy
                      else DCO_BASE_CONF default_policy * DCO_NO_ADDRESS_PENALTY default_policy),
                   DecisionCore.sources = [DCO],
                   rule_path = ''DECEASED_DCO'',
                   tie_break_reason = None\<rparr>)
   \<and> DCO_BASE_CONF default_policy = 0.98"
proof (intro conjI impI allI)
  show "decide_deceased default_policy None = Inl insufficient_deceased"
    by (simp add: decide_deceased_def insufficient_deceased_def)
next
  assume "ResidenceEvidence.comuna_code ev = None"
  then show "decide_deceased default_policy (Some ev) = Inl insufficient_deceased"
    by (simp add: decide_deceased_def insufficient_deceased_def)
next
  fix code assume c: "ResidenceEvidence.comuna_code ev = Some code"
  have base: "clamp (DCO_BASE_CONF default_policy * 1.0) = DCO_BASE_CONF default_policy"
    by (simp add: clamp_def default_policy_def Let_def)
  have pen: "clamp (DCO_BASE_CONF default_policy * DCO_NO_ADDRESS_PENALTY default_policy)
               = DCO_BASE_CONF default_policy * DCO_NO_ADDRESS_PENALTY default_policy"
    by (simp add: clamp_def default_policy_def Let_def)
  show "decide_deceased default_policy (Some ev) =
          Inr \<lparr>DecisionCore.comuna_code = code,
               DecisionCore.address = or_empty (ResidenceEvidence.address ev),
               DecisionCore.confidence =
                 (if truthy (ResidenceEvidence.address ev) then DCO_BASE_CONF default_policy
                  else DCO_BASE_CONF default_policy * DCO_NO_ADDRESS_PENALTY default_policy),
               DecisionCore.sources = [DCO],
               rule_path = ''DECEASED_DCO'',
               tie_break_reason = None\<rparr>"
    using c base pen by (simp add: decide_deceased_def Let_def)
next
  show "DCO_BASE_CONF default_policy = 0.98"
    by (simp add: default_policy_def)
qed

text \<open>A registry evidence with comuna 05101 and no address: confidence 0.98 * 0.92.\<close>

theorem decide_deceased_cases_witness:
  "ResidenceEvidence.comuna_code dco_no_address_ev = Some ''05101''
   \<and> decide_deceased default_policy (Some dco_no_address_ev) =
       Inr \<lparr>DecisionCore.comuna_code = ''05101'',
            DecisionCore.address = [],
            DecisionCore.confidence = 0.98 * 0.92,
            DecisionCore.sources = [DCO],
            rule_path = ''DECEASED_DCO'',
            tie_break_reason = None\<rparr>
   \<and> ResidenceEvidence.comuna_code (dco_no_address_ev\<lparr>ResidenceEvidence.comuna_code := None\<rparr>) = None
   \<and> decide_deceased default_policy
        (Some (dco_no_address_ev\<lparr>ResidenceEvidence.comuna_code := None\<rparr>))
       = Inl (Raise ValueError ''DCO evidence required with comuna_code for deceased path'')"
proof -
  have c: "ResidenceEvidence.comuna_code dco_no_address_ev = Some ''05101''"
    by (simp add: dco_no_address_ev_def)
  have n: "ResidenceEvidence.comuna_code
             (dco_no_address_ev\<lparr>ResidenceEvidence.comuna_code := None\<rparr>) = None"
    by simp
  from decide_deceased_cases [of dco_no_address_ev, THEN conjunct2, THEN conjunct2,
                              THEN conjunct1, rule_format, OF c]
       decide_deceased_cases [of "dco_no_address_ev\<lparr>ResidenceEvidence.comuna_code := None\<rparr>",
                              THEN conjunct2, THEN conjunct1, rule_format, OF n]
  show ?thesis
    using c by (simp add: dco_no_address_ev_def default_policy_def insufficient_deceased_def)
qed

text \<open>
  Claim C8. Every decision that the fusion functions return has a non-empty comuna code.
  \<^verbatim>\<open>decide_alive\<close> keeps this: its tests are truth-value tests, which an empty string
  fails (\<open>decide_alive_comuna_nonempty\<close>). \<^verbatim>\<open>decide_deceased\<close> tests
  \<^verbatim>\<open>comuna_code is None\<close> only, and for a registry evidence whose comuna code is the empty
  string it returns a decision with the empty comuna code.
\<close>

theorem decide_deceased_empty_comuna:
  "decide_deceased default_policy (Some dco_empty_comuna_ev) =
     Inr \<lparr>DecisionCore.comuna_code = [],
          DecisionCore.address = [],
          DecisionCore.confidence = 0.9016,
          DecisionCore.sources = [DCO],
          rule_path = ''DECEASED_DCO'',
          tie_break_reason = None\<rparr>"
  by (simp add: decide_deceased_def dco_empty_comuna_ev_def default_policy_def clamp_def Let_def)

subsection \<open>The alive path: when it raises\<close>

text \<open>
  Claim C3. \<^verbatim>\<open>decide_alive\<close> raises the insufficient-evidence error exactly when neither
  the text-inference evidence nor the claims evidence carries a comuna code; in that case
  it returns no decision, and in every other case it returns one.
\<close>

theorem decide_alive_raises_iff:
  "(\<not> carries_comuna nlp_ev \<and> \<not> carries_comuna sigges_ev
      \<longrightarrow> decide_alive pol nlp_ev sigges_ev qs qn = Inl insufficient_alive)
   \<and> (carries_comuna nlp_ev \<or> carries_comuna sigges_ev
      \<longrightarrow> (\<exists>d. decide_alive pol nlp_ev sigges_ev qs qn = Inr d))"
proof (intro conjI impI)
  assume "\<not> carries_comuna nlp_ev \<and> \<not> carries_comuna sigges_ev"
  then show "decide_alive pol nlp_ev sigges_ev qs qn = Inl insufficient_alive"
    by (simp add: decide_alive_case_no_nlp decide_alive_no_nlp_insufficient)
next
  assume a: "carries_comuna nlp_ev \<or> carries_comuna sigges_ev"
  show "\<exists>d. decide_alive pol nlp_ev sigges_ev qs qn = Inr d"
  proof (cases "carries_comuna nlp_ev")
    case True
    then obtain nlp code where "nlp_ev = Some nlp"
        "ResidenceEvidence.comuna_code nlp = Some code" "code \<noteq> []"
      by (auto simp: carries_comuna_def split: option.splits elim: truthy.elims)
    then show ?thesis
      by (simp add: decide_alive_case_nlp)
  next
    case False
    with a have "carries_comuna sigges_ev" by simp
    then obtain sig code where "sigges_ev = Some sig"
        "ResidenceEvidence.comuna_code sig = Some code" "code \<noteq> []"
      by (auto simp: carries_comuna_def split: option.splits elim: truthy.elims)
    with False show ?thesis
      by (simp add: decide_alive_case_no_nlp decide_alive_no_nlp_sigges)
  qed
qed

text \<open>
  No evidence at all raises; an evidence without comuna code on each side raises; the
  scenario's claims evidence alone gives a decision.
\<close>

theorem decide_alive_raises_iff_witness:
  "\<not> carries_comuna None
   \<and> \<not> carries_comuna (Some (scenario_nlp_ev\<lparr>ResidenceEvidence.comuna_code := None\<rparr>))
   \<and> decide_alive default_policy
        (Some (scenario_nlp_ev\<lparr>ResidenceEvidence.comuna_code := None\<rparr>)) None None None
       = Inl (Raise ValueError
               ''Insufficient evidence to decide for alive path (no comuna from NLP or SIGGES)'')
   \<and> carries_comuna (Some scenario_sigges_ev)
   \<and> (\<exists>d. decide_alive default_policy None (Some scenario_sigges_ev) None None = Inr d)"
proof -
  have n: "\<not> carries_comuna None"
    by (simp add: carries_comuna_def)
  have m: "\<not> carries_comuna (Some (scenario_nlp_ev\<lparr>ResidenceEvidence.comuna_code := None\<rparr>))"
    by (simp add: carries_comuna_def)
  have s: "carries_comuna (Some scenario_sigges_ev)"
    by (simp add: carries_comuna_def scenario_sigges_ev_def)
  from decide_alive_raises_iff
         [of "Some (scenario_nlp_ev\<lparr>ResidenceEvidence.comuna_code := None\<rparr>)" None
             default_policy None None, THEN conjunct1, rule_format, OF conjI [OF m n]]
       decide_alive_raises_iff
         [of None "Some scenario_sigges_ev" default_policy None None,
          THEN conjunct2, rule_format, OF disjI2 [OF s]]
  show ?thesis
    using n m s by (simp add: insufficient_alive_def)
qed

subsection \<open>The alive path: the three cases\<close>

text \<open>
  Claim C4, as the specification states it: in the agreement scenario (text inference with
  comuna 05101 and probability 0.8; claims evidence with comuna 05101, address
  ``Av. X 100'' and quality hint EXACT) the confidence is
  clamp(0.90 * 0.8 + 0.15 + 0.05 * 1.0) = clamp(1.0) = 1.0. The sum is 0.92, not 1.0, and
  the decision returned is not the one with confidence 1.0.
\<close>

theorem agreement_scenario_confidence_not_one:
  "decide_alive default_policy (Some scenario_nlp_ev) (Some scenario_sigges_ev) (Some EXACT) None
     \<noteq> Inr \<lparr>DecisionCore.comuna_code = ''05101'',
             DecisionCore.address = ''Av. X 100'',
             DecisionCore.confidence = 1.0,
             DecisionCore.sources = [NLP, SIGGES],
             rule_path = ''ALIVE_NLP_AGREE_SIGGES'',
             tie_break_reason = None\<rparr>
   \<and> clamp (0.90 * 0.8 + 0.15 + 0.05 * 1.0) \<noteq> 1.0"
  by (simp add: decide_alive_def decide_alive_nlp_def default_policy_def scenario_nlp_ev_def
                scenario_sigges_ev_def clamp_def Let_def)

text \<open>
  Claim C4, amended. In the agreement scenario \<^verbatim>\<open>decide_alive\<close> detects agreement and
  returns the comuna 05101, the address of the claims evidence, sources
  \<open>[NLP, SIGGES]\<close>, rule path \<open>ALIVE_NLP_AGREE_SIGGES\<close> and the confidence
  clamp(0.90 * 0.8 + 0.15 + 0.05 * 1.0) = 0.92.
\<close>

theorem agreement_scenario:
  "decide_alive default_policy (Some scenario_nlp_ev) (Some scenario_sigges_ev) (Some EXACT) None
     = Inr \<lparr>DecisionCore.comuna_code = ''05101'',
            DecisionCore.address = ''Av. X 100'',
            DecisionCore.confidence = 0.92,
            DecisionCore.sources = [NLP, SIGGES],
            rule_path = ''ALIVE_NLP_AGREE_SIGGES'',
            tie_break_reason = None\<rparr>
   \<and> clamp (0.90 * 0.8 + 0.15 + 0.05 * 1.0) = 0.92"
  by (simp add: decide_alive_def decide_alive_nlp_def default_policy_def scenario_nlp_ev_def
                scenario_sigges_ev_def clamp_def Let_def)





subsection \<open>The address-quality weight\<close>

text \<open>
  Claim C9. The weight behind every address bonus of \<^verbatim>\<open>decide_alive\<close> is the
  specification's quality weight: \<^verbatim>\<open>quality_to_weight\<close> of the hint when a hint is
  supplied (EXACT 1.0, PARTIAL 0.7, UNKNOWN 0.4, absent 0.0), and otherwise
  \<^verbatim>\<open>default_addr_weight\<close>: 0.0 without an address text, else 0.7 for a claims-system
  address and 0.5 for a text-inference address. The rule path of the decision tells the
  case, and so which address and which bonus are weighed.
\<close>

theorem address_quality_weight:
  assumes "decide_alive pol nlp_ev sigges_ev qs qn = Inr d"
  shows "(rule_path d = ''ALIVE_NLP_AGREE_SIGGES'' \<longrightarrow>
            (\<exists>nlp sig. nlp_ev = Some nlp \<and> sigges_ev = Some sig
               \<and> DecisionCore.confidence d =
                   clamp (W_NLP pol * model_probability pol nlp + BOOST_AGREE pol
                          + ADDR_BONUS_SIGGES pol
                            * spec_quality_weight SIGGES qs (ResidenceEvidence.address sig))))
       \<and> (rule_path d = ''ALIVE_NLP_DISAGREE'' \<longrightarrow>
            (\<exists>nlp. nlp_ev = Some nlp
               \<and> DecisionCore.confidence d =
                   clamp (W_NLP pol * model_probability pol nlp
                          + ADDR_BONUS_NLP pol
                            * spec_quality_weight NLP qn (ResidenceEvidence.address nlp))))
       \<and> (rule_path d = ''ALIVE_SIGGES_ONLY'' \<longrightarrow>
            (\<exists>sig. sigges_ev = Some sig
               \<and> DecisionCore.confidence d =
                   clamp (SIGGES_ONLY_BASE pol
                          + ADDR_BONUS_SIGGES pol
                            * spec_quality_weight SIGGES qs (ResidenceEvidence.address sig))))
       \<and> rule_path d \<in> {''ALIVE_NLP_AGREE_SIGGES'', ''ALIVE_NLP_DISAGREE'', ''ALIVE_SIGGES_ONLY''}
       \<and> (\<forall>src q addr. spec_quality_weight src (Some q) addr = quality_to_weight (Some q))
       \<and> (\<forall>src addr. spec_quality_weight src None addr = default_addr_weight src addr)
       \<and> quality_to_weight (Some EXACT) = 1.0 \<and> quality_to_weight (Some PARTIAL) = 0.7
       \<and> quality_to_weight (Some UNKNOWN) = 0.4 \<and> quality_to_weight None = 0.0
       \<and> (\<forall>src addr. \<not> truthy addr \<longrightarrow> default_addr_weight src addr = 0.0)
       \<and> (\<forall>addr. truthy addr \<longrightarrow> default_addr_weight SIGGES addr = 0.7
                                  \<and> default_addr_weight NLP addr = 0.5)"
proof -
  have branches:
    "(\<exists>nlp sig code. nlp_ev = Some nlp \<and> sigges_ev = Some sig
        \<and> ResidenceEvidence.comuna_code sig = Some code
        \<and> d = decide_alive_nlp pol nlp code (Some sig) qs qn)
     \<or> (\<exists>nlp code. nlp_ev = Some nlp
        \<and> (\<forall>sig. sigges_ev = Some sig \<longrightarrow> ResidenceEvidence.comuna_code sig \<noteq> Some code)
        \<and> d = decide_alive_nlp pol nlp code sigges_ev qs qn)
     \<or> (\<exists>sig code. sigges_ev = Some sig \<and> ResidenceEvidence.comuna_code sig = Some code
        \<and> code \<noteq> [] \<and> Inr d = decide_alive_no_nlp pol (Some sig) qs)"
  proof (cases "carries_comuna nlp_ev")
    case True
    then obtain nlp code where n: "nlp_ev = Some nlp"
        "ResidenceEvidence.comuna_code nlp = Some code" "code \<noteq> []"
      by (auto simp: carries_comuna_def split: option.splits elim: truthy.elims)
    with assms have d: "d = decide_alive_nlp pol nlp code sigges_ev qs qn"
      by (simp add: decide_alive_case_nlp)
    show ?thesis
    proof (cases "\<exists>sig. sigges_ev = Some sig \<and> ResidenceEvidence.comuna_code sig = Some code")
      case True
      with n d show ?thesis by auto
    next
      case False
      with n d show ?thesis by auto
    qed
  next
    case False
    with assms have r: "decide_alive_no_nlp pol sigges_ev qs = Inr d"
      by (simp add: decide_alive_case_no_nlp)
    then have "carries_comuna sigges_ev"
      using decide_alive_no_nlp_insufficient [of sigges_ev pol qs] by auto
    then obtain sig code where "sigges_ev = Some sig"
        "ResidenceEvidence.comuna_code sig = Some code" "code \<noteq> []"
      by (auto simp: carries_comuna_def split: option.splits elim: truthy.elims)
    with r show ?thesis by auto
  qed
  have paths: "(rule_path d = ''ALIVE_NLP_AGREE_SIGGES'' \<longrightarrow>
            (\<exists>nlp sig. nlp_ev = Some nlp \<and> sigges_ev = Some sig
               \<and> DecisionCore.confidence d =
                   clamp (W_NLP pol * model_probability pol nlp + BOOST_AGREE pol
                          + ADDR_BONUS_SIGGES pol
                            * spec_quality_weight SIGGES qs (ResidenceEvidence.address sig))))
       \<and> (rule_path d = ''ALIVE_NLP_DISAGREE'' \<longrightarrow>
            (\<exists>nlp. nlp_ev = Some nlp
               \<and> DecisionCore.confidence d =
                   clamp (W_NLP pol * model_probability pol nlp
                          + ADDR_BONUS_NLP pol
                            * spec_quality_weight NLP qn (ResidenceEvidence.address nlp))))
       \<and> (rule_path d = ''ALIVE_SIGGES_ONLY'' \<longrightarrow>
            (\<exists>sig. sigges_ev = Some sig
               \<and> DecisionCore.confidence d =
                   clamp (SIGGES_ONLY_BASE pol
                          + ADDR_BONUS_SIGGES pol
                            * spec_quality_weight SIGGES qs (ResidenceEvidence.address sig))))
       \<and> rule_path d \<in> {''ALIVE_NLP_AGREE_SIGGES'', ''ALIVE_NLP_DISAGREE'', ''ALIVE_SIGGES_ONLY''}"
    using branches
  proof (elim disjE exE conjE)
    fix nlp sig code
    assume "nlp_ev = Some nlp" "sigges_ev = Some sig"
      "ResidenceEvidence.comuna_code sig = Some code"
      "d = decide_alive_nlp pol nlp code (Some sig) qs qn"
    then show ?thesis
      by (simp add: decide_alive_nlp_agree)
  next
    fix nlp code
    assume "nlp_ev = Some nlp"
      "\<forall>sig. sigges_ev = Some sig \<longrightarrow> ResidenceEvidence.comuna_code sig \<noteq> Some code"
      "d = decide_alive_nlp pol nlp code sigges_ev qs qn"
    then show ?thesis
      by (simp add: decide_alive_nlp_disagree)
  next
    fix sig code
    assume "sigges_ev = Some sig" "ResidenceEvidence.comuna_code sig = Some code" "code \<noteq> []"
      "Inr d = decide_alive_no_nlp pol (Some sig) qs"
    then show ?thesis
      by (simp add: decide_alive_no_nlp_sigges)
  qed
  have hint: "\<forall>src q addr. spec_quality_weight src (Some q) addr = quality_to_weight (Some q)"
    using weight_refines_spec [of "Some _"] by simp
  have nohint: "\<forall>src addr. spec_quality_weight src None addr = default_addr_weight src addr"
    using weight_refines_spec [of None] by simp
  have table: "quality_to_weight (Some EXACT) = 1.0 \<and> quality_to_weight (Some PARTIAL) = 0.7
       \<and> quality_to_weight (Some UNKNOWN) = 0.4 \<and> quality_to_weight None = 0.0"
    by simp
  have heur: "(\<forall>src addr. \<not> truthy addr \<longrightarrow> default_addr_weight src addr = 0.0)
       \<and> (\<forall>addr. truthy addr \<longrightarrow> default_addr_weight SIGGES addr = 0.7
                                  \<and> default_addr_weight NLP addr = 0.5)"
    by (simp add: default_addr_weight_def)
  from paths hint nohint table heur show ?thesis
    by blast
qed

text \<open>
  The agreement scenario without a hint weighs the claims address by 0.7; with the hint
  PARTIAL in the claims-only case the weight is 0.7 as well, and UNKNOWN on a
  text-inference address gives 0.4.
\<close>

theorem address_quality_weight_witness:
  "decide_alive default_policy (Some scenario_nlp_ev) (Some scenario_sigges_ev) None None =
     Inr \<lparr>DecisionCore.comuna_code = ''05101'',
          DecisionCore.address = ''Av. X 100'',
          DecisionCore.confidence = 0.90 * 0.8 + 0.15 + 0.05 * 0.7,
          DecisionCore.sources = [NLP, SIGGES],
          rule_path = ''ALIVE_NLP_AGREE_SIGGES'',
          tie_break_reason = None\<rparr>
   \<and> clamp (W_NLP default_policy * model_probability default_policy scenario_nlp_ev
            + BOOST_AGREE default_policy
            + ADDR_BONUS_SIGGES default_policy
              * spec_quality_weight SIGGES None (ResidenceEvidence.address scenario_sigges_ev))
       = 0.90 * 0.8 + 0.15 + 0.05 * 0.7
   \<and> truthy (Some ''Av. X 100'') \<and> default_addr_weight SIGGES (Some ''Av. X 100'') = 0.7
   \<and> default_addr_weight NLP (Some ''Av. X 100'') = 0.5
   \<and> \<not> truthy None \<and> default_addr_weight SIGGES None = 0"
proof -
  have r: "decide_alive default_policy (Some scenario_nlp_ev) (Some scenario_sigges_ev) None None =
     Inr \<lparr>DecisionCore.comuna_code = ''05101'',
          DecisionCore.address = ''Av. X 100'',
          DecisionCore.confidence = 0.90 * 0.8 + 0.15 + 0.05 * 0.7,
          DecisionCore.sources = [NLP, SIGGES],
          rule_path = ''ALIVE_NLP_AGREE_SIGGES'',
          tie_break_reason = None\<rparr>"
    by (simp add: decide_alive_def decide_alive_nlp_def default_policy_def scenario_nlp_ev_def
                  scenario_sigges_ev_def default_addr_weight_def clamp_def Let_def)
  have t: "truthy (Some ''Av. X 100'')" and f: "\<not> truthy None"
    by simp_all
  note w = address_quality_weight [OF r]
  from w [THEN conjunct1] have "\<exists>nlp sig. Some scenario_nlp_ev = Some nlp \<and> Some scenario_sigges_ev = Some sig
      \<and> (0.90 * 0.8 + 0.15 + 0.05 * 0.7 :: real) =
          clamp (W_NLP default_policy * model_probability default_policy nlp
                 + BOOST_AGREE default_policy
                 + ADDR_BONUS_SIGGES default_policy
                   * spec_quality_weight SIGGES None (ResidenceEvidence.address sig))"
    by simp
  then have c: "clamp (W_NLP default_policy * model_probability default_policy scenario_nlp_ev
            + BOOST_AGREE default_policy
            + ADDR_BONUS_SIGGES default_policy
              * spec_quality_weight SIGGES None (ResidenceEvidence.address scenario_sigges_ev))
       = 0.90 * 0.8 + 0.15 + 0.05 * 0.7"
    by simp
  from w have h: "\<forall>addr. truthy addr \<longrightarrow> default_addr_weight SIGGES addr = 0.7
                                  \<and> default_addr_weight NLP addr = 0.5"
    and z: "\<forall>src addr. \<not> truthy addr \<longrightarrow> default_addr_weight src addr = 0.0"
    by blast+
  from h t have "default_addr_weight SIGGES (Some ''Av. X 100'') = 0.7"
      "default_addr_weight NLP (Some ''Av. X 100'') = 0.5"
    by blast+
  moreover from z f have "default_addr_weight SIGGES None = 0"
    by simp
  ultimately show ?thesis
    using r c t f by simp
qed

subsection \<open>An empty comuna code from text inference\<close>

text \<open>
  Claim C10. A text-inference evidence whose comuna code is the empty string is treated
  as one without comuna code: \<^verbatim>\<open>decide_alive\<close> gives what it gives for the same evidence
  with \<^verbatim>\<open>comuna_code = None\<close> and for no text-inference evidence at all; that is the
  claims-only decision when the claims evidence has a non-empty comuna code and the
  insufficient-evidence error otherwise. The empty code is never the decision's comuna.
\<close>

theorem decide_alive_empty_nlp_comuna:
  assumes "ResidenceEvidence.comuna_code nlp = Some []"
  shows "decide_alive pol (Some nlp) sigges_ev qs qn
           = decide_alive pol (Some (nlp\<lparr>ResidenceEvidence.comuna_code := None\<rparr>)) sigges_ev qs qn
       \<and> decide_alive pol (Some nlp) sigges_ev qs qn = decide_alive pol None sigges_ev qs qn
       \<and> (\<forall>sig code. sigges_ev = Some sig \<and> ResidenceEvidence.comuna_code sig = Some code
             \<and> code \<noteq> [] \<longrightarrow>
            decide_alive pol (Some nlp) sigges_ev qs qn =
              Inr \<lparr>DecisionCore.comuna_code = code,
                   DecisionCore.address = or_empty (ResidenceEvidence.address sig),
                   DecisionCore.confidence =
                     clamp (SIGGES_ONLY_BASE pol
                            + ADDR_BONUS_SIGGES pol
                              * spec_quality_weight SIGGES qs (ResidenceEvidence.address sig)),
                   DecisionCore.sources = [SIGGES],
                   rule_path = ''ALIVE_SIGGES_ONLY'',
                   tie_break_reason = None\<rparr>)
       \<and> (\<not> carries_comuna sigges_ev \<longrightarrow>
            decide_alive pol (Some nlp) sigges_ev qs qn = Inl insufficient_alive)
       \<and> (\<forall>d. decide_alive pol (Some nlp) sigges_ev qs qn = Inr d
            \<longrightarrow> DecisionCore.comuna_code d \<noteq> [])"
proof -
  have n: "\<not> carries_comuna (Some nlp)"
    using assms by (simp add: carries_comuna_def)
  have m: "\<not> carries_comuna (Some (nlp\<lparr>ResidenceEvidence.comuna_code := None\<rparr>))"
    by (simp add: carries_comuna_def)
  have z: "\<not> carries_comuna None"
    by (simp add: carries_comuna_def)
  have e: "decide_alive pol (Some nlp) sigges_ev qs qn = decide_alive_no_nlp pol sigges_ev qs"
    using n by (rule decide_alive_case_no_nlp)
  have "decide_alive pol (Some (nlp\<lparr>ResidenceEvidence.comuna_code := None\<rparr>)) sigges_ev qs qn
          = decide_alive_no_nlp pol sigges_ev qs"
    using m by (rule decide_alive_case_no_nlp)
  moreover have "decide_alive pol None sigges_ev qs qn = decide_alive_no_nlp pol sigges_ev qs"
    using z by (rule decide_alive_case_no_nlp)
  moreover have "\<forall>sig code. sigges_ev = Some sig \<and> ResidenceEvidence.comuna_code sig = Some code
             \<and> code \<noteq> [] \<longrightarrow>
            decide_alive_no_nlp pol sigges_ev qs =
              Inr \<lparr>DecisionCore.comuna_code = code,
                   DecisionCore.address = or_empty (ResidenceEvidence.address sig),
                   DecisionCore.confidence =
                     clamp (SIGGES_ONLY_BASE pol
                            + ADDR_BONUS_SIGGES pol
                              * spec_quality_weight SIGGES qs (ResidenceEvidence.address sig)),
                   DecisionCore.sources = [SIGGES],
                   rule_path = ''ALIVE_SIGGES_ONLY'',
                   tie_break_reason = None\<rparr>"
    by (auto simp: decide_alive_no_nlp_sigges)
  moreover have "\<not> carries_comuna sigges_ev \<longrightarrow>
            decide_alive_no_nlp pol sigges_ev qs = Inl insufficient_alive"
    by (simp add: decide_alive_no_nlp_insufficient)
  moreover have "\<forall>d. decide_alive pol (Some nlp) sigges_ev qs qn = Inr d
            \<longrightarrow> DecisionCore.comuna_code d \<noteq> []"
    using decide_alive_comuna_nonempty by blast
  ultimately show ?thesis
    unfolding e by simp
qed

text \<open>
  The evidence with the empty comuna code, an address and probability 0.9: beside the
  scenario's claims evidence the decision is the claims-only one, and alone it raises.
\<close>

theorem decide_alive_empty_nlp_comuna_witness:
  "ResidenceEvidence.comuna_code nlp_empty_comuna_ev = Some []
   \<and> decide_alive default_policy (Some nlp_empty_comuna_ev) (Some scenario_sigges_ev) None None =
       Inr \<lparr>DecisionCore.comuna_code = ''05101'',
            DecisionCore.address = ''Av. X 100'',
            DecisionCore.confidence = 0.685,
            DecisionCore.sources = [SIGGES],
            rule_path = ''ALIVE_SIGGES_ONLY'',
            tie_break_reason = None\<rparr>
   \<and> \<not> carries_comuna None
   \<and> decide_alive default_policy (Some nlp_empty_comuna_ev) None None None
       = Inl (Raise ValueError
               ''Insufficient evidence to decide for alive path (no comuna from NLP or SIGGES)'')"
proof -
  have c: "ResidenceEvidence.comuna_code nlp_empty_comuna_ev = Some []"
    by (simp add: nlp_empty_comuna_ev_def)
  have z: "\<not> carries_comuna None"
    by (simp add: carries_comuna_def)
  have s: "ResidenceEvidence.comuna_code scenario_sigges_ev = Some ''05101''"
    by (simp add: scenario_sigges_ev_def)
  have w: "clamp (SIGGES_ONLY_BASE default_policy
                  + ADDR_BONUS_SIGGES default_policy
                    * spec_quality_weight SIGGES None (ResidenceEvidence.address scenario_sigges_ev))
             = 0.685"
    by (simp add: default_policy_def scenario_sigges_ev_def spec_quality_weight_def
                  clamp_def Let_def)
  note t = decide_alive_empty_nlp_comuna [OF c]
  from t [of default_policy "Some scenario_sigges_ev" None None,
          THEN conjunct2, THEN conjunct2, THEN conjunct1, rule_format,
          of scenario_sigges_ev "''05101''"]
       t [of default_policy None None None,
          THEN conjunct2, THEN conjunct2, THEN conjunct2, THEN conjunct1, rule_format, OF z]
  show ?thesis
    using c z s w by (simp add: scenario_sigges_ev_def insufficient_alive_def)
qed

subsection \<open>Connector failures in the orchestrator\<close>

text \<open>Replacing one connector leaves everything else of the imputer as it was.\<close>

lemma without_sigges_simps:
  "self_nlp (without_sigges imp) = self_nlp imp"
  "self_normalizer (without_sigges imp) = self_normalizer imp"
  "self_mapper (without_sigges imp) = self_mapper imp"
  "self_budget_sigges_ms (without_sigges imp) = self_budget_sigges_ms imp"
  "self_budget_nlp_ms (without_sigges imp) = self_budget_nlp_ms imp"
  "remaining_ms (without_sigges imp) t0 now = remaining_ms imp t0 now"
  "self_sigges (without_sigges imp) rut dv deadline_ms = Inr None"
  by (simp_all add: without_sigges_def remaining_ms_def)

lemma without_nlp_simps:
  "self_sigges (without_nlp imp) = self_sigges imp"
  "self_normalizer (without_nlp imp) = self_normalizer imp"
  "self_mapper (without_nlp imp) = self_mapper imp"
  "self_budget_sigges_ms (without_nlp imp) = self_budget_sigges_ms imp"
  "self_budget_nlp_ms (without_nlp imp) = self_budget_nlp_ms imp"
  "remaining_ms (without_nlp imp) t0 now = remaining_ms imp t0 now"
  "self_nlp (without_nlp imp) texts deadline_ms = Inr None"
  by (simp_all add: without_nlp_def remaining_ms_def)

lemma complete_decision_without:
  "complete_decision (without_sigges imp) core audit = complete_decision imp core audit"
  "complete_decision (without_nlp imp) core audit = complete_decision imp core audit"
  unfolding complete_decision_def without_sigges_simps without_nlp_simps
  by (rule refl)+

lemma safe_infer_nlp_without_sigges:
  "safe_infer_nlp_with_quality (without_sigges imp) texts deadline_ms
     = safe_infer_nlp_with_quality imp texts deadline_ms"
  unfolding safe_infer_nlp_with_quality_def without_sigges_simps
  by (rule refl)

lemma safe_fetch_sigges_without_nlp:
  "safe_fetch_sigges_with_quality (without_nlp imp) rut dv deadline_ms
     = safe_fetch_sigges_with_quality imp rut dv deadline_ms"
  unfolding safe_fetch_sigges_with_quality_def without_nlp_simps
  by (rule refl)

lemma safe_fetch_sigges_absent:
  "safe_fetch_sigges_with_quality (without_sigges imp) rut dv deadline_ms = (None, None)"
  by (simp add: safe_fetch_sigges_with_quality_def without_sigges_simps)

lemma safe_infer_nlp_absent:
  "safe_infer_nlp_with_quality (without_nlp imp) texts deadline_ms = (None, None)"
  by (simp add: safe_infer_nlp_with_quality_def without_nlp_simps)

lemma safe_fetch_sigges_raises:
  "self_sigges imp rut dv deadline_ms = Inl ex
   \<Longrightarrow> safe_fetch_sigges_with_quality imp rut dv deadline_ms = (None, None)"
  by (simp add: safe_fetch_sigges_with_quality_def)

lemma safe_infer_nlp_raises:
  "self_nlp imp texts deadline_ms = Inl ex
   \<Longrightarrow> safe_infer_nlp_with_quality imp texts deadline_ms = (None, None)"
  by (simp add: safe_infer_nlp_with_quality_def)

text \<open>The alive path of \<^verbatim>\<open>decide\<close>, in terms of what the two helpers return.\<close>

lemma decide_alive_path:
  assumes "vital_status \<noteq> 2"
  shows "decide pol imp clk rut dv vital_status ges_text noges_text audit =
           (case decide_alive pol
                   (fst (if nonempty_texts ges_text noges_text \<noteq> [] then
                           safe_infer_nlp_with_quality imp (nonempty_texts ges_text noges_text)
                             (deadline_nlp imp clk)
                         else (None, None)))
                   (fst (safe_fetch_sigges_with_quality imp rut dv (deadline_sigges imp clk)))
                   (snd (safe_fetch_sigges_with_quality imp rut dv (deadline_sigges imp clk)))
                   (snd (if nonempty_texts ges_text noges_text \<noteq> [] then
                           safe_infer_nlp_with_quality imp (nonempty_texts ges_text noges_text)
                             (deadline_nlp imp clk)
                         else (None, None))) of
              Inl ex \<Rightarrow> Inl ex
            | Inr core \<Rightarrow> complete_decision imp core audit)"
  using assms
  by (simp add: decide_def Let_def deadline_nlp_def deadline_sigges_def nonempty_texts_def
           split: prod.splits)

lemma safe_infer_nlp_succeeds:
  assumes "self_nlp imp texts deadline_ms = Inr (Some ev)"
    and "\<forall>normalizer a. self_normalizer imp = Some normalizer
            \<and> ResidenceEvidence.address ev = Some a \<and> a \<noteq> []
            \<longrightarrow> (\<exists>std q. normalizer a = Inr (std, q))"
  shows "\<exists>ev' q. safe_infer_nlp_with_quality imp texts deadline_ms = (Some ev', q)
           \<and> ResidenceEvidence.comuna_code ev' = ResidenceEvidence.comuna_code ev"
proof (cases "ResidenceEvidence.address ev")
  case None
  with assms(1) show ?thesis
    by (simp add: safe_infer_nlp_with_quality_def)
next
  case (Some a)
  show ?thesis
  proof (cases "a = [] \<or> self_normalizer imp = None")
    case True
    with Some assms(1) show ?thesis
      by (auto simp: safe_infer_nlp_with_quality_def)
  next
    case False
    then obtain normalizer where n: "self_normalizer imp = Some normalizer" and a: "a \<noteq> []"
      by auto
    with Some assms(2) obtain std q where "normalizer a = Inr (std, q)"
      by blast
    with Some n a assms(1) show ?thesis
      by (simp add: safe_infer_nlp_with_quality_def)
  qed
qed

text \<open>
  Claim C7. In \<^verbatim>\<open>decide\<close>:
  \<^item> with vital status 2, an exception of the registry connector is fatal: \<^verbatim>\<open>decide\<close>
    raises a \<^verbatim>\<open>ValueError\<close> that carries the connector's message;
  \<^item> otherwise, an exception of the claims-system connector is caught, and \<^verbatim>\<open>decide\<close>
    gives what it gives when that connector returns no evidence, whatever the
    text-inference connector does;
  \<^item> likewise an exception of the text-inference connector, whatever the claims-system
    connector does;
  \<^item> so when the claims-system connector raises while text inference returns an evidence
    with a comuna code that the catalog knows (and the normaliser, if there is one,
    accepts the address), \<^verbatim>\<open>decide\<close> returns a decision with that comuna and the
    source \<open>NLP\<close> alone.
\<close>

theorem connector_failures:
  "(vital_status = 2
      \<and> self_dco imp rut dv (deadline_dco imp clk) = Inl (Raise cls msg)
      \<longrightarrow> decide pol imp clk rut dv vital_status ges_text noges_text audit
            = Inl (Raise ValueError (''DCOReader.fetch failed for deceased path: '' @ msg)))
   \<and> (vital_status \<noteq> 2
      \<and> self_sigges imp rut dv (deadline_sigges imp clk) = Inl ex
      \<longrightarrow> safe_fetch_sigges_with_quality imp rut dv (deadline_sigges imp clk) = (None, None)
          \<and> decide pol imp clk rut dv vital_status ges_text noges_text audit
            = decide pol (without_sigges imp) clk rut dv vital_status ges_text noges_text audit)
   \<and> (vital_status \<noteq> 2
      \<and> self_nlp imp (nonempty_texts ges_text noges_text) (deadline_nlp imp clk) = Inl ex
      \<longrightarrow> safe_infer_nlp_with_quality imp (nonempty_texts ges_text noges_text)
              (deadline_nlp imp clk) = (None, None)
          \<and> decide pol imp clk rut dv vital_status ges_text noges_text audit
            = decide pol (without_nlp imp) clk rut dv vital_status ges_text noges_text audit)
   \<and> (vital_status \<noteq> 2
      \<and> self_sigges imp rut dv (deadline_sigges imp clk) = Inl ex
      \<and> nonempty_texts ges_text noges_text \<noteq> []
      \<and> self_nlp imp (nonempty_texts ges_text noges_text) (deadline_nlp imp clk) = Inr (Some ev)
      \<and> ResidenceEvidence.comuna_code ev = Some code \<and> code \<noteq> []
      \<and> (\<forall>normalizer a. self_normalizer imp = Some normalizer
              \<and> ResidenceEvidence.address ev = Some a \<and> a \<noteq> []
              \<longrightarrow> (\<exists>std q. normalizer a = Inr (std, q)))
      \<and> to_region_code (self_mapper imp) code = Inr rcode
      \<and> to_comuna_name (self_mapper imp) code = Inr cname
      \<and> to_region_name (self_mapper imp) rcode = Inr rname
      \<longrightarrow> (\<exists>dec. decide pol imp clk rut dv vital_status ges_text noges_text audit = Inr dec
                 \<and> Decision.comuna_code dec = code \<and> comuna dec = cname
                 \<and> region_code dec = rcode \<and> region dec = rname
                 \<and> Decision.sources dec = [NLP] \<and> audit_id dec = audit))"
proof (intro conjI impI)
  assume "vital_status = 2 \<and> self_dco imp rut dv (deadline_dco imp clk) = Inl (Raise cls msg)"
  then show "decide pol imp clk rut dv vital_status ges_text noges_text audit
               = Inl (Raise ValueError (''DCOReader.fetch failed for deceased path: '' @ msg))"
    by (simp add: decide_def safe_fetch_dco_def deadline_dco_def Let_def)
next
  assume a: "vital_status \<noteq> 2 \<and> self_sigges imp rut dv (deadline_sigges imp clk) = Inl ex"
  then show "safe_fetch_sigges_with_quality imp rut dv (deadline_sigges imp clk) = (None, None)"
    by (simp add: safe_fetch_sigges_raises)
  have d: "deadline_sigges (without_sigges imp) clk = deadline_sigges imp clk"
      "deadline_nlp (without_sigges imp) clk = deadline_nlp imp clk"
    by (simp_all add: deadline_sigges_def deadline_nlp_def without_sigges_simps)
  from a show "decide pol imp clk rut dv vital_status ges_text noges_text audit
       = decide pol (without_sigges imp) clk rut dv vital_status ges_text noges_text audit"
    by (simp add: decide_alive_path d safe_fetch_sigges_raises safe_fetch_sigges_absent
                  safe_infer_nlp_without_sigges complete_decision_without cong: sum.case_cong)
next
  assume a: "vital_status \<noteq> 2
      \<and> self_nlp imp (nonempty_texts ges_text noges_text) (deadline_nlp imp clk) = Inl ex"
  then show "safe_infer_nlp_with_quality imp (nonempty_texts ges_text noges_text)
               (deadline_nlp imp clk) = (None, None)"
    by (simp add: safe_infer_nlp_raises)
  have d: "deadline_sigges (without_nlp imp) clk = deadline_sigges imp clk"
      "deadline_nlp (without_nlp imp) clk = deadline_nlp imp clk"
    by (simp_all add: deadline_sigges_def deadline_nlp_def without_nlp_simps)
  from a show "decide pol imp clk rut dv vital_status ges_text noges_text audit
       = decide pol (without_nlp imp) clk rut dv vital_status ges_text noges_text audit"
    by (simp add: decide_alive_path d safe_infer_nlp_raises safe_infer_nlp_absent
                  safe_fetch_sigges_without_nlp complete_decision_without cong: sum.case_cong)
next
  assume a: "vital_status \<noteq> 2
      \<and> self_sigges imp rut dv (deadline_sigges imp clk) = Inl ex
      \<and> nonempty_texts ges_text noges_text \<noteq> []
      \<and> self_nlp imp (nonempty_texts ges_text noges_text) (deadline_nlp imp clk) = Inr (Some ev)
      \<and> ResidenceEvidence.comuna_code ev = Some code \<and> code \<noteq> []
      \<and> (\<forall>normalizer a. self_normalizer imp = Some normalizer
              \<and> ResidenceEvidence.address ev = Some a \<and> a \<noteq> []
              \<longrightarrow> (\<exists>std q. normalizer a = Inr (std, q)))
      \<and> to_region_code (self_mapper imp) code = Inr rcode
      \<and> to_comuna_name (self_mapper imp) code = Inr cname
      \<and> to_region_name (self_mapper imp) rcode = Inr rname"
  then obtain ev' q where n:
      "safe_infer_nlp_with_quality imp (nonempty_texts ges_text noges_text) (deadline_nlp imp clk)
         = (Some ev', q)"
      "ResidenceEvidence.comuna_code ev' = Some code"
    using safe_infer_nlp_succeeds [of imp "nonempty_texts ges_text noges_text"
                                      "deadline_nlp imp clk" ev]
    by auto
  have s: "safe_fetch_sigges_with_quality imp rut dv (deadline_sigges imp clk) = (None, None)"
    using a by (simp add: safe_fetch_sigges_raises)
  have core: "decide_alive pol (Some ev') None None q
                = Inr (decide_alive_nlp pol ev' code None None q)"
    using n(2) a by (simp add: decide_alive_case_nlp)
  have fields: "DecisionCore.comuna_code (decide_alive_nlp pol ev' code None None q) = code"
      "DecisionCore.sources (decide_alive_nlp pol ev' code None None q) = [NLP]"
    using decide_alive_nlp_disagree [of None code pol ev' None q] by simp_all
  from a show "\<exists>dec. decide pol imp clk rut dv vital_status ges_text noges_text audit = Inr dec
                 \<and> Decision.comuna_code dec = code \<and> comuna dec = cname
                 \<and> region_code dec = rcode \<and> region dec = rname
                 \<and> Decision.sources dec = [NLP] \<and> audit_id dec = audit"
    by (simp add: decide_alive_path n(1) s core complete_decision_def fields Let_def)
qed

text \<open>
  The example imputer: for a deceased person the registry's failure surfaces as a
  \<^verbatim>\<open>ValueError\<close>; for a living person the claims system's timeout does not surface and
  the decision rests on text inference; with text inference down and the claims system
  up, the decision rests on the claims system.
\<close>

theorem connector_failures_witness:
  "self_dco example_imputer ''11111111'' ''1'' (deadline_dco example_imputer example_clock)
     = Inl (Raise NotFoundError ''no record'')
   \<and> decide default_policy example_imputer example_clock ''11111111'' ''1'' 2
        (Some ''vive en Valparaiso'') None ''audit-1''
       = Inl (Raise ValueError ''DCOReader.fetch failed for deceased path: no record'')
   \<and> self_sigges example_imputer ''11111111'' ''1'' (deadline_sigges example_imputer example_clock)
       = Inl (Raise TimeoutError ''deadline exceeded'')
   \<and> nonempty_texts (Some ''vive en Valparaiso'') None = [''vive en Valparaiso'']
   \<and> decide default_policy example_imputer example_clock ''11111111'' ''1'' 1
        (Some ''vive en Valparaiso'') None ''audit-1''
       = Inr \<lparr>region = ''Valparaiso'', region_code = ''05'', comuna = ''Valparaiso'',
              Decision.comuna_code = ''05101'', Decision.address = [],
              Decision.confidence = 0.72, Decision.sources = [NLP], audit_id = ''audit-1''\<rparr>
   \<and> decide default_policy (without_sigges example_imputer) example_clock ''11111111'' ''1'' 1
        (Some ''vive en Valparaiso'') None ''audit-1''
       = decide default_policy example_imputer example_clock ''11111111'' ''1'' 1
           (Some ''vive en Valparaiso'') None ''audit-1''
   \<and> self_nlp example_imputer (nonempty_texts (Some ''vive en Valparaiso'') None)
        (deadline_nlp example_imputer example_clock) = Inr (Some scenario_nlp_ev)
   \<and> self_normalizer example_imputer = None
   \<and> to_region_code (self_mapper example_imputer) ''05101'' = Inr ''05''
   \<and> to_comuna_name (self_mapper example_imputer) ''05101'' = Inr ''Valparaiso''
   \<and> to_region_name (self_mapper example_imputer) ''05'' = Inr ''Valparaiso''
   \<and> (\<exists>dec. decide default_policy example_imputer example_clock ''11111111'' ''1'' 1
               (Some ''vive en Valparaiso'') None ''audit-1'' = Inr dec
            \<and> Decision.comuna_code dec = ''05101'' \<and> Decision.sources dec = [NLP])
   \<and> self_nlp example_imputer_nlp_down (nonempty_texts (Some ''vive en Valparaiso'') None)
        (deadline_nlp example_imputer_nlp_down example_clock)
       = Inl (Raise DataQualityError ''no usable text'')
   \<and> decide default_policy example_imputer_nlp_down example_clock ''11111111'' ''1'' 1
        (Some ''vive en Valparaiso'') None ''audit-1''
       = Inr \<lparr>region = ''Valparaiso'', region_code = ''05'', comuna = ''Valparaiso'',
              Decision.comuna_code = ''05101'', Decision.address = ''Av. X 100'',
              Decision.confidence = 0.685, Decision.sources = [SIGGES], audit_id = ''audit-1''\<rparr>
   \<and> decide default_policy (without_nlp example_imputer_nlp_down) example_clock
        ''11111111'' ''1'' 1 (Some ''vive en Valparaiso'') None ''audit-1''
       = decide default_policy example_imputer_nlp_down example_clock ''11111111'' ''1'' 1
           (Some ''vive en Valparaiso'') None ''audit-1''"
proof -
  have dco: "self_dco example_imputer ''11111111'' ''1'' (deadline_dco example_imputer example_clock)
               = Inl (Raise NotFoundError ''no record'')"
    by (simp add: example_imputer_def)
  have sig: "self_sigges example_imputer ''11111111'' ''1''
               (deadline_sigges example_imputer example_clock)
               = Inl (Raise TimeoutError ''deadline exceeded'')"
    by (simp add: example_imputer_def)
  have texts: "nonempty_texts (Some ''vive en Valparaiso'') None = [''vive en Valparaiso'']"
    by (simp add: nonempty_texts_def)
  have nlp: "self_nlp example_imputer_nlp_down (nonempty_texts (Some ''vive en Valparaiso'') None)
               (deadline_nlp example_imputer_nlp_down example_clock)
               = Inl (Raise DataQualityError ''no usable text'')"
    by (simp add: example_imputer_nlp_down_def example_imputer_def)
  have up: "self_nlp example_imputer (nonempty_texts (Some ''vive en Valparaiso'') None)
               (deadline_nlp example_imputer example_clock) = Inr (Some scenario_nlp_ev)"
      "self_normalizer example_imputer = None"
      "to_region_code (self_mapper example_imputer) ''05101'' = Inr ''05''"
      "to_comuna_name (self_mapper example_imputer) ''05101'' = Inr ''Valparaiso''"
      "to_region_name (self_mapper example_imputer) ''05'' = Inr ''Valparaiso''"
    by (simp_all add: example_imputer_def example_mapper_def)
  have alive1: "decide default_policy example_imputer example_clock ''11111111'' ''1'' 1
        (Some ''vive en Valparaiso'') None ''audit-1''
       = Inr \<lparr>region = ''Valparaiso'', region_code = ''05'', comuna = ''Valparaiso'',
              Decision.comuna_code = ''05101'', Decision.address = [],
              Decision.confidence = 0.72, Decision.sources = [NLP], audit_id = ''audit-1''\<rparr>"
    by (simp add: decide_def example_imputer_def example_mapper_def scenario_nlp_ev_def
                  safe_fetch_sigges_with_quality_def safe_infer_nlp_with_quality_def
                  decide_alive_def decide_alive_nlp_def default_addr_weight_def
                  complete_decision_def default_policy_def clamp_def Let_def)
  have alive2: "decide default_policy example_imputer_nlp_down example_clock ''11111111'' ''1'' 1
        (Some ''vive en Valparaiso'') None ''audit-1''
       = Inr \<lparr>region = ''Valparaiso'', region_code = ''05'', comuna = ''Valparaiso'',
              Decision.comuna_code = ''05101'', Decision.address = ''Av. X 100'',
              Decision.confidence = 0.685, Decision.sources = [SIGGES], audit_id = ''audit-1''\<rparr>"
    by (simp add: decide_def example_imputer_nlp_down_def example_imputer_def example_mapper_def
                  scenario_sigges_ev_def
                  safe_fetch_sigges_with_quality_def safe_infer_nlp_with_quality_def
                  decide_alive_def decide_alive_no_nlp_def default_addr_weight_def
                  complete_decision_def default_policy_def clamp_def Let_def)
  note t = connector_failures [where pol = default_policy and clk = example_clock
             and rut = "''11111111''" and dv = "''1''" and ges_text = "Some ''vive en Valparaiso''"
             and noges_text = None and audit = "''audit-1''"]
  have "decide default_policy example_imputer example_clock ''11111111'' ''1'' 2
        (Some ''vive en Valparaiso'') None ''audit-1''
       = Inl (Raise ValueError (''DCOReader.fetch failed for deceased path: '' @ ''no record''))"
    using t [where imp = example_imputer and vital_status = 2, THEN conjunct1, rule_format,
             OF conjI [OF refl dco]] .
  moreover have "decide default_policy example_imputer example_clock ''11111111'' ''1'' 1
        (Some ''vive en Valparaiso'') None ''audit-1''
       = decide default_policy (without_sigges example_imputer) example_clock ''11111111'' ''1'' 1
           (Some ''vive en Valparaiso'') None ''audit-1''"
    using t [where imp = example_imputer and vital_status = 1, THEN conjunct2, THEN conjunct1,
             rule_format, of "Raise TimeoutError ''deadline exceeded''"] sig
    by simp
  moreover have "decide default_policy example_imputer_nlp_down example_clock ''11111111'' ''1'' 1
        (Some ''vive en Valparaiso'') None ''audit-1''
       = decide default_policy (without_nlp example_imputer_nlp_down) example_clock
           ''11111111'' ''1'' 1 (Some ''vive en Valparaiso'') None ''audit-1''"
    using t [where imp = example_imputer_nlp_down and vital_status = 1,
             THEN conjunct2, THEN conjunct2, THEN conjunct1,
             rule_format, of "Raise DataQualityError ''no usable text''"] nlp
    by simp
  moreover have "\<exists>dec. decide default_policy example_imputer example_clock ''11111111'' ''1'' 1
               (Some ''vive en Valparaiso'') None ''audit-1'' = Inr dec
            \<and> Decision.comuna_code dec = ''05101'' \<and> Decision.sources dec = [NLP]"
    using t [where imp = example_imputer and vital_status = 1,
             THEN conjunct2, THEN conjunct2, THEN conjunct2, rule_format,
             of "Raise TimeoutError ''deadline exceeded''" scenario_nlp_ev "''05101''"
                "''05''" "''Valparaiso''" "''Valparaiso''"]
          sig texts up
    by (auto simp: scenario_nlp_ev_def)
  ultimately show ?thesis
    using dco sig texts nlp up alive1 alive2 by simp
qed

end
